theory Spec2Isabelle
  imports Main
begin

section \<open>Errors\<close>

text \<open>
  A Go \<^verbatim>\<open>error\<close> value is \<open>None\<close> (nil) or \<open>Some e\<close>. The sentinels are the package
  variables the sources compare against (of wrp-go, of the sender, of the server, of the
  context package and of mangos); \<open>Err txt\<close> is any other error, known by its text (a dial
  error of the transport, a test's "random error"), and \<open>Joined es\<close> is the value built by
  \<^verbatim>\<open>errors.Join\<close>.
\<close>

datatype error =
    ErrNotHandled
  | ErrorInvalidLocator
  | ErrConnClosed
  | ErrFailedToSend
  | errInvalidMsg
  | Canceled
  | DeadlineExceeded
  | ErrRecvTimeout
  | Err string
  | Joined "error list"

text \<open>\<^verbatim>\<open>errors.Join\<close>: nil arguments are discarded; nil when nothing is left.\<close>

definition errors_Join :: "error option list \<Rightarrow> error option" where
  "errors_Join errs =
     (case List.map_filter id errs of [] \<Rightarrow> None | e # es \<Rightarrow> Some (Joined (e # es)))"

text \<open>
  \<^verbatim>\<open>errors.Is\<close>: the error is the target, or it is a joined error one of whose members
  matches the target. (Go compares joined errors by pointer; every target used in the sources
  is a sentinel, for which the comparison is the equality below.)
\<close>

fun is_err :: "error \<Rightarrow> error \<Rightarrow> bool" where
  "is_err (Joined es) target = (Joined es = target \<or> (\<exists>e \<in> set es. is_err e target))"
| "is_err err target = (err = target)"

definition errors_Is :: "error option \<Rightarrow> error option \<Rightarrow> bool" where
  "errors_Is err target =
     (case err of
        None \<Rightarrow> err = target
      | Some e \<Rightarrow> (case target of None \<Rightarrow> False | Some t \<Rightarrow> is_err e t))"

section \<open>Messages\<close>

text \<open>
  \<^verbatim>\<open>wrp.Message\<close> with the fields the sources read or set. \<^verbatim>\<open>wrp.MessageType\<close> is an
  \<^verbatim>\<open>int64\<close> enumeration of the wrp-go library; the constants below are the ones the
  routing code and its test name, with the library's values.
\<close>

record Message =
  Type :: int
  Source :: string
  Destination :: string
  Status :: "int option"
  Payload :: "nat list"
  ServiceName :: string
  URL :: string

definition AuthorizationMessageType :: int where
  "AuthorizationMessageType = 2"

definition SimpleRequestResponseMessageType :: int where
  "SimpleRequestResponseMessageType = 3"

definition ServiceRegistrationMessageType :: int where
  "ServiceRegistrationMessageType = 9"

definition ServiceAliveMessageType :: int where
  "ServiceAliveMessageType = 10"

text \<open>The zero value \<^verbatim>\<open>wrp.Message{}\<close>.\<close>

definition Message_zero :: Message where
  "Message_zero = \<lparr>Type = 0, Source = [], Destination = [], Status = None, Payload = [],
     ServiceName = [], URL = []\<rparr>"

section \<open>The stopping processor chain\<close>

text \<open>
  \<^verbatim>\<open>internal/processors/stopping\<close>. A processor may do anything to the world around it,
  so it is a function on a world \<open>'s\<close> that returns its error and the new world. The
  context lives in that world too (somebody else may cancel it while a processor runs):
  \<open>ctx s\<close> is \<^verbatim>\<open>ctx.Err()\<close> read in world \<open>s\<close>. A nil entry of the slice is \<open>None\<close>.
\<close>

type_synonym 's Context = "'s \<Rightarrow> error option"

type_synonym 's Processor = "'s Context \<Rightarrow> Message \<Rightarrow> 's \<Rightarrow> error option \<times> 's"

fun Processors_ProcessWRP ::
  "'s Processor option list \<Rightarrow> 's Context \<Rightarrow> Message \<Rightarrow> 's \<Rightarrow> error option \<times> 's" where
  "Processors_ProcessWRP [] ctx msg s = (Some ErrNotHandled, s)"
| "Processors_ProcessWRP (proc # p) ctx msg s =
     (if ctx s \<noteq> None then (ctx s, s)
      else case proc of
        None \<Rightarrow> Processors_ProcessWRP p ctx msg s
      | Some f \<Rightarrow>
          (case f ctx msg s of (err, s') \<Rightarrow>
             if errors_Is err (Some ErrNotHandled) then Processors_ProcessWRP p ctx msg s'
             else (err, s')))"

text \<open>
  The processor of the package's test: it runs an optional side effect \<open>f\<close> and returns a
  fixed error.
\<close>

definition mockProcessor :: "('s \<Rightarrow> 's) \<Rightarrow> error option \<Rightarrow> 's Processor" where
  "mockProcessor f err = (\<lambda>ctx msg s. (err, f s))"

text \<open>
  A world for call-count assertions: the numbers of the processors invoked so far, in order,
  and whether the context has been cancelled.
\<close>

definition called :: "nat \<Rightarrow> nat list \<times> bool \<Rightarrow> nat list \<times> bool" where
  "called i s = (fst s @ [i], snd s)"

definition cancel_ctx :: "nat list \<times> bool \<Rightarrow> nat list \<times> bool" where
  "cancel_ctx s = (fst s, True)"

definition ctx_of_flag :: "(nat list \<times> bool) Context" where
  "ctx_of_flag s = (if snd s then Some Canceled else None)"

subsection \<open>What the chain is expected to do\<close>

text \<open>
  \<open>every_not_handled p ctx msg s\<close>: started in world \<open>s\<close>, the context is live before each
  entry of \<open>p\<close> and every processor of \<open>p\<close> answers not-handled (as the chain tests it, with
  \<^verbatim>\<open>errors.Is\<close>: the sentinel or an error joined around it); nil entries do nothing.
  \<open>world_after p ctx msg s\<close> is the world once the processors of \<open>p\<close> have been invoked one
  after the other, in the order of the slice, nil entries skipped.
\<close>

fun every_not_handled ::
  "'s Processor option list \<Rightarrow> 's Context \<Rightarrow> Message \<Rightarrow> 's \<Rightarrow> bool" where
  "every_not_handled [] ctx msg s = True"
| "every_not_handled (proc # p) ctx msg s =
     (ctx s = None \<and>
      (case proc of
         None \<Rightarrow> every_not_handled p ctx msg s
       | Some f \<Rightarrow> errors_Is (fst (f ctx msg s)) (Some ErrNotHandled) \<and>
                  every_not_handled p ctx msg (snd (f ctx msg s))))"

definition invoke :: "'s Context \<Rightarrow> Message \<Rightarrow> 's \<Rightarrow> 's Processor option \<Rightarrow> 's" where
  "invoke ctx msg s proc = (case proc of None \<Rightarrow> s | Some f \<Rightarrow> snd (f ctx msg s))"

definition world_after ::
  "'s Processor option list \<Rightarrow> 's Context \<Rightarrow> Message \<Rightarrow> 's \<Rightarrow> 's" where
  "world_after p ctx msg s = foldl (invoke ctx msg) s p"

section \<open>The routing table: senderMap\<close>

text \<open>
  \<^verbatim>\<open>sendermap.go\<close>. The map holds values of the interface \<^verbatim>\<open>limitedSender\<close>, which are
  pointers to sender objects: a \<open>ref\<close> is such a pointer, and the objects live in a world
  \<open>'w\<close> outside the map. What an object does when one of its three methods is called is
  not the map's business, so the methods are a parameter: each takes the object and the world
  and returns its error and the new world. Nothing else is assumed about them. They act on
  the world of the senders; the one way in which a sender acts on the map, the close
  listener that upsert gives it, is the subject of the section on close listeners below.
\<close>

type_synonym ref = nat

record 'w limitedSender =
  ProcessWRP :: "ref \<Rightarrow> 'w Context \<Rightarrow> Message \<Rightarrow> 'w \<Rightarrow> error option \<times> 'w"
  Dial :: "ref \<Rightarrow> 'w \<Rightarrow> error option \<times> 'w"
  Close :: "ref \<Rightarrow> 'w \<Rightarrow> error option \<times> 'w"

text \<open>\<^verbatim>\<open>context.Background()\<close> is never cancelled.\<close>

definition Background :: "'w Context" where
  "Background = (\<lambda>w. None)"

text \<open>
  The options of \<^verbatim>\<open>internal/sender\<close>. A close listener is a Go closure; the one the map
  injects, \<^verbatim>\<open>func(error) { _ = sm.Remove(name) }\<close>, is \<open>SelfRemoval name\<close>, and any other
  closure is a \<open>Callback\<close> known by a number.
\<close>

datatype listener = SelfRemoval string | Callback nat

datatype Option =
    WithURL string
  | WithSendTimeout int
  | WithCloseListener listener

text \<open>
  \<^verbatim>\<open>limitedSenderFactory\<close>: from the options, a sender (nil or not) and an error, with its
  effect on the world (the new object).
\<close>

type_synonym 'w limitedSenderFactory = "Option list \<Rightarrow> 'w \<Rightarrow> (ref option \<times> error option) \<times> 'w"

text \<open>
  The struct: the Go map, which may be nil (\<open>None\<close>), as it is before the first upsert and
  after Close. Its values are senders, never nil: upsert, the only writer, stores the sender
  it has just dialed. The lock \<^verbatim>\<open>sm.lock\<close> has no field here: what it does to a call that
  asks for it while its own caller holds it is written out in Remove and upsert below.
\<close>

record senderMap =
  senders :: "(string \<rightharpoonup> ref) option"

text \<open>Reading \<^verbatim>\<open>sm.senders[name]\<close>: a nil map reads as an empty one.\<close>

definition lookup :: "senderMap \<Rightarrow> string \<Rightarrow> ref option" where
  "lookup sm name = (case senders sm of None \<Rightarrow> None | Some m \<Rightarrow> m name)"

text \<open>
  The library's locator: \<^verbatim>\<open>wrp.ParseLocator\<close> is a collaborator and a parameter of
  \<open>senderMap_ProcessWRP\<close>; \<^verbatim>\<open>msg.To()\<close> reads the destination.
\<close>

record Locator =
  Scheme :: string
  Authority :: string
  Service :: string
  Ignored :: string

definition To :: "Message \<Rightarrow> string" where
  "To msg = Destination msg"

text \<open>The second loop of the broadcast: every sender of the copied slice, errors dropped.\<close>

fun send_to_all :: "'w limitedSender \<Rightarrow> ref list \<Rightarrow> 'w Context \<Rightarrow> Message \<Rightarrow> 'w \<Rightarrow> 'w" where
  "send_to_all I [] ctx msg w = w"
| "send_to_all I (s # ss) ctx msg w =
     (case ProcessWRP I s ctx msg w of (_, w') \<Rightarrow> send_to_all I ss ctx msg w')"

text \<open>
  \<^verbatim>\<open>range sm.senders\<close> visits the keys of the map in an order Go does not specify: \<open>order\<close>
  is that order, and the slice copied under the read lock holds the senders found at these
  keys.
\<close>

definition senderMap_ProcessWRP ::
  "'w limitedSender \<Rightarrow> (string \<Rightarrow> error + Locator) \<Rightarrow> string list \<Rightarrow>
   senderMap \<Rightarrow> 'w Context \<Rightarrow> Message \<Rightarrow> 'w \<Rightarrow> error option \<times> 'w" where
  "senderMap_ProcessWRP I ParseLocator order sm ctx msg w =
     (if Type msg = ServiceAliveMessageType then
        (let senders = List.map_filter (lookup sm) order
         in (None, send_to_all I senders ctx msg w))
      else
        case ParseLocator (To msg) of
          Inl err \<Rightarrow> (Some err, w)
        | Inr dest \<Rightarrow>
            (case lookup sm (Service dest) of
               Some target \<Rightarrow> ProcessWRP I target ctx msg w
             | None \<Rightarrow> (Some ErrNotHandled, w)))"

text \<open>
  A call that panics (a method called on a nil interface) returns nothing, and neither does a
  call that waits for a lock which is never released.
\<close>

datatype 'a outcome = Returns 'a | Panics | Deadlocks

subsection \<open>Close listeners\<close>

text \<open>
  A sender reaches the map in one way only: through the close listeners it was given, which
  it calls when it closes. The production sender calls them at the end of a \<^verbatim>\<open>Close\<close> that
  found it connected, in the goroutine of the caller, and at the end of a send that fails,
  in the goroutine of the send, before the error is handed to the caller of ProcessWRP (who,
  with the background context of upsert, waits for it); the test's \<^verbatim>\<open>mockSender\<close> calls
  none. The world keeps the list of the listeners its senders have called so far, each with
  the error it was called with: \<open>told w\<close>, a parameter like the methods. The listeners that a
  method has called are the entries it added: \<open>calls told w w'\<close>, for the worlds before and
  after the method.
\<close>

type_synonym notification = "listener \<times> error option"

definition calls :: "('w \<Rightarrow> notification list) \<Rightarrow> 'w \<Rightarrow> 'w \<Rightarrow> notification list" where
  "calls told w w' = drop (length (told w)) (told w')"

text \<open>The names whose removal the listeners called ask for, in order.\<close>

fun removals :: "notification list \<Rightarrow> string list" where
  "removals [] = []"
| "removals ((SelfRemoval name, err) # ns) = name # removals ns"
| "removals ((Callback k, err) # ns) = removals ns"

text \<open>
  Remove holds \<^verbatim>\<open>sm.lock\<close> from its first line to its return, and the lock is not reentrant.
  When \<^verbatim>\<open>s.Close()\<close> calls a listener that upsert injected, that listener calls Remove, which
  waits for the lock its caller holds: the call never returns, the sender is closed and the
  key is not deleted.
\<close>

definition Remove ::
  "'w limitedSender \<Rightarrow> ('w \<Rightarrow> notification list) \<Rightarrow> string \<Rightarrow> senderMap \<Rightarrow> 'w \<Rightarrow>
   error option outcome \<times> senderMap \<times> 'w" where
  "Remove I told name sm w =
     (case lookup sm name of
        Some s \<Rightarrow>
          (case Close I s w of (_, w') \<Rightarrow>
             if removals (calls told w w') \<noteq> [] then (Deadlocks, sm, w')
             else
               (Returns None,
                sm\<lparr>senders := (case senders sm of None \<Rightarrow> None | Some m \<Rightarrow> Some (m(name := None)))\<rparr>,
                w'))
      | None \<Rightarrow> (Returns None, sm, w))"

text \<open>
  The closure that upsert injects, \<^verbatim>\<open>func(error) { _ = sm.Remove(name) }\<close>, called with the
  error of the closing sender while nobody holds the lock.
\<close>

definition closeListener ::
  "'w limitedSender \<Rightarrow> ('w \<Rightarrow> notification list) \<Rightarrow> string \<Rightarrow> error option \<Rightarrow> senderMap \<Rightarrow> 'w \<Rightarrow>
   unit outcome \<times> senderMap \<times> 'w" where
  "closeListener I told name err sm w =
     (case Remove I told name sm w of (out, sm', w') \<Rightarrow> (map_outcome (\<lambda>_. ()) out, sm', w'))"

text \<open>
  The listeners that a method called while nobody held the lock, in the order of the calls.
  A listener that is not the map's own is somebody else's closure and leaves the map and
  the senders alone.
\<close>

fun listeners_called ::
  "'w limitedSender \<Rightarrow> ('w \<Rightarrow> notification list) \<Rightarrow> notification list \<Rightarrow> senderMap \<Rightarrow> 'w \<Rightarrow>
   unit outcome \<times> senderMap \<times> 'w" where
  "listeners_called I told [] sm w = (Returns (), sm, w)"
| "listeners_called I told ((SelfRemoval name, err) # ns) sm w =
     (case closeListener I told name err sm w of
        (Returns _, sm', w') \<Rightarrow> listeners_called I told ns sm' w'
      | (Panics, sm', w') \<Rightarrow> (Panics, sm', w')
      | (Deadlocks, sm', w') \<Rightarrow> (Deadlocks, sm', w'))"
| "listeners_called I told ((Callback k, err) # ns) sm w = listeners_called I told ns sm w"

definition authorization :: Message where
  "authorization = Message_zero\<lparr>Type := AuthorizationMessageType, Status := Some 200\<rparr>"

text \<open>
  The part of upsert between \<^verbatim>\<open>sm.lock.Lock()\<close> and \<^verbatim>\<open>sm.lock.Unlock()\<close>. The existing
  sender is closed while the lock is held: when its Close calls a listener that upsert
  injected, the listener's Remove waits for that lock and upsert goes no further.
\<close>

definition replace ::
  "'w limitedSender \<Rightarrow> ('w \<Rightarrow> notification list) \<Rightarrow> string \<Rightarrow> ref \<Rightarrow> senderMap \<Rightarrow> 'w \<Rightarrow>
   unit outcome \<times> senderMap \<times> 'w" where
  "replace I told name s sm w =
     (let m = (case senders sm of None \<Rightarrow> Map.empty | Some m \<Rightarrow> m);
          existing = m name
      in case existing of
        Some old \<Rightarrow>
          (case Close I old w of (_, w') \<Rightarrow>
             if removals (calls told w w') \<noteq> [] then (Deadlocks, sm, w')
             else (Returns (), sm\<lparr>senders := Some (m(name \<mapsto> s))\<rparr>, w'))
      | None \<Rightarrow> (Returns (), sm\<lparr>senders := Some (m(name \<mapsto> s))\<rparr>, w))"

text \<open>
  upsert. The listeners called by the Close of a sender that failed to dial, and by the
  handshake send, are called outside the lock. Dial calls no close listener.
\<close>

definition upsert ::
  "'w limitedSender \<Rightarrow> ('w \<Rightarrow> notification list) \<Rightarrow> string \<Rightarrow> Option list \<Rightarrow>
   'w limitedSenderFactory \<Rightarrow> senderMap \<Rightarrow> 'w \<Rightarrow> error option outcome \<times> senderMap \<times> 'w" where
  "upsert I told name opts factory sm w =
     (let opts = opts @ [WithCloseListener (SelfRemoval name)] in
      case factory opts w of ((s, err), w1) \<Rightarrow>
        (if err \<noteq> None then (Returns err, sm, w1)
         else (case s of
           None \<Rightarrow> (Panics, sm, w1)
         | Some s \<Rightarrow>
             (case Dial I s w1 of (err, w2) \<Rightarrow>
                (if err \<noteq> None then
                   (case Close I s w2 of (_, w3) \<Rightarrow>
                      (case listeners_called I told (calls told w2 w3) sm w3 of
                         (out, sm', w4) \<Rightarrow> (map_outcome (\<lambda>_. err) out, sm', w4)))
                 else
                   (case replace I told name s sm w2 of
                      (Returns _, sm', w3) \<Rightarrow>
                        (case ProcessWRP I s Background authorization w3 of (_, w4) \<Rightarrow>
                           (case listeners_called I told (calls told w3 w4) sm' w4 of
                              (out, sm'', w5) \<Rightarrow> (map_outcome (\<lambda>_. None) out, sm'', w5)))
                    | (Panics, sm', w3) \<Rightarrow> (Panics, sm', w3)
                    | (Deadlocks, sm', w3) \<Rightarrow> (Deadlocks, sm', w3)))))))"

text \<open>\<^verbatim>\<open>Upsert\<close> is upsert with the factory \<^verbatim>\<open>sender.New\<close>, here the parameter \<open>New\<close>.\<close>

definition Upsert ::
  "'w limitedSender \<Rightarrow> ('w \<Rightarrow> notification list) \<Rightarrow> 'w limitedSenderFactory \<Rightarrow> string \<Rightarrow>
   Option list \<Rightarrow> senderMap \<Rightarrow> 'w \<Rightarrow> error option outcome \<times> senderMap \<times> 'w" where
  "Upsert I told New name opts sm w = upsert I told name opts New sm w"

section \<open>The server's registration handler\<close>

text \<open>\<^verbatim>\<open>server.go\<close>: the fields of the server that the handler touches.\<close>

record Server =
  sOpts :: "Option list"
  Server_senders :: senderMap

definition handleRegisterMsg ::
  "'w limitedSender \<Rightarrow> ('w \<Rightarrow> notification list) \<Rightarrow> 'w limitedSenderFactory \<Rightarrow> Server \<Rightarrow>
   'w Context \<Rightarrow> Message \<Rightarrow> 'w \<Rightarrow> error option outcome \<times> Server \<times> 'w" where
  "handleRegisterMsg I told New srv ctx msg w =
     (if Type msg \<noteq> ServiceRegistrationMessageType then (Returns (Some ErrNotHandled), srv, w)
      else if ServiceName msg = [] \<or> URL msg = [] then (Returns (Some errInvalidMsg), srv, w)
      else
        let opts = sOpts srv @ [WithURL (URL msg)] in
        case Upsert I told New (ServiceName msg) opts (Server_senders srv) w of
          (res, sm', w') \<Rightarrow> (res, srv\<lparr>Server_senders := sm'\<rparr>, w'))"

section \<open>Senders for the examples\<close>

text \<open>
  The \<^verbatim>\<open>mockSender\<close> of the map's test: ProcessWRP counts its calls and returns
  \<open>processErr\<close>, Dial returns \<open>dialErr\<close>, Close returns nil. A count of the calls of Close is
  added, to observe them. The objects are numbered in the order in which the factory made
  them.
\<close>

record mockSender =
  processErr :: "error option"
  processCount :: nat
  dialErr :: "error option"
  closeCount :: nat

record mock_world =
  objs :: "ref \<Rightarrow> mockSender"
  allocated :: nat

definition mockSender_zero :: mockSender where
  "mockSender_zero = \<lparr>processErr = None, processCount = 0, dialErr = None, closeCount = 0\<rparr>"

definition no_senders :: mock_world where
  "no_senders = \<lparr>objs = (\<lambda>r. mockSender_zero), allocated = 0\<rparr>"

definition mock :: "mock_world limitedSender" where
  "mock = \<lparr>
     ProcessWRP = (\<lambda>r ctx msg w.
       (processErr (objs w r),
        w\<lparr>objs := (objs w)(r := (objs w r)\<lparr>processCount := processCount (objs w r) + 1\<rparr>)\<rparr>)),
     Dial = (\<lambda>r w. (dialErr (objs w r), w)),
     Close = (\<lambda>r w.
       (None, w\<lparr>objs := (objs w)(r := (objs w r)\<lparr>closeCount := closeCount (objs w r) + 1\<rparr>)\<rparr>))\<rparr>"

definition mock_factory :: "mockSender \<Rightarrow> mock_world limitedSenderFactory" where
  "mock_factory m opts w =
     ((Some (allocated w), None),
      w\<lparr>objs := (objs w)(allocated w := m), allocated := allocated w + 1\<rparr>)"

definition failing_factory :: "error \<Rightarrow> mock_world limitedSenderFactory" where
  "failing_factory e opts w = ((None, Some e), w)"

text \<open>
  The values of \<^verbatim>\<open>wrp.ParseLocator\<close> at the destinations of the map's test, and the
  tables, worlds and messages of the examples below.
\<close>

definition test_ParseLocator :: "string \<Rightarrow> error + Locator" where
  "test_ParseLocator d =
     (if d = ''mac:112233445566/service_1/ignored'' then
        Inr \<lparr>Scheme = ''mac'', Authority = ''112233445566'', Service = ''service_1'',
          Ignored = ''/ignored''\<rparr>
      else if d = ''mac:112233445566/invalid/ignored'' then
        Inr \<lparr>Scheme = ''mac'', Authority = ''112233445566'', Service = ''invalid'',
          Ignored = ''/ignored''\<rparr>
      else Inl ErrorInvalidLocator)"

definition two_services :: senderMap where
  "two_services = \<lparr>senders = Some [''service_1'' \<mapsto> 0, ''service_2'' \<mapsto> 1]\<rparr>"

definition two_mocks :: mock_world where
  "two_mocks =
     \<lparr>objs = (\<lambda>r. mockSender_zero)(0 := mockSender_zero\<lparr>processErr := Some (Err ''random error'')\<rparr>),
      allocated = 2\<rparr>"

definition alive :: Message where
  "alive = Message_zero\<lparr>Type := ServiceAliveMessageType\<rparr>"

definition request :: "string \<Rightarrow> Message" where
  "request d = Message_zero\<lparr>Type := SimpleRequestResponseMessageType, Destination := d\<rparr>"

definition registration :: "string \<Rightarrow> string \<Rightarrow> Message" where
  "registration name url =
     Message_zero\<lparr>Type := ServiceRegistrationMessageType, ServiceName := name, URL := url\<rparr>"

definition empty_map :: senderMap where
  "empty_map = \<lparr>senders = None\<rparr>"

section \<open>One outbound connection: Sender\<close>

text \<open>
  \<^verbatim>\<open>internal/sender/sender.go\<close>. The transport (the mangos library) is a collaborator:
  its calls are a parameter, each with its error and its effect on a world \<open>'n\<close>. A socket
  is known by a number.
\<close>

type_synonym bytes = "nat list"

type_synonym socket = nat

datatype sock_option = OptionWriteQLen int | OptionSendDeadline int | OptionRecvDeadline int

record 'n mangos =
  NewSocket :: "'n \<Rightarrow> (error + socket) \<times> 'n"
  sock_SetOption :: "socket \<Rightarrow> sock_option \<Rightarrow> 'n \<Rightarrow> error option \<times> 'n"
  sock_Dial :: "socket \<Rightarrow> string \<Rightarrow> 'n \<Rightarrow> error option \<times> 'n"
  sock_Send :: "socket \<Rightarrow> bytes \<Rightarrow> 'n \<Rightarrow> error option \<times> 'n"
  sock_Close :: "socket \<Rightarrow> 'n \<Rightarrow> error option \<times> 'n"

text \<open>
  The struct. \<open>sock\<close> is nil until Dial and after Close. A close listener is a Go closure
  called with the reason: a function of the error on the world outside the sender. The
  mutex is not modelled: a call that takes it finds the effects of the previous send
  complete, since the send's goroutine holds it until the transport has answered. It is
  released before the close listeners are called, so that a listener may call the sender.
\<close>

record 'n Sender =
  url :: string
  onClose :: "(error option \<Rightarrow> 'n \<Rightarrow> 'n) list"
  sock :: "socket option"
  sendDeadline :: int

definition dialNewSocket ::
  "'n mangos \<Rightarrow> string \<Rightarrow> int \<Rightarrow> 'n \<Rightarrow> (error + socket) \<times> 'n" where
  "dialNewSocket T addr deadline n =
     (case NewSocket T n of
        (Inl err, n1) \<Rightarrow> (Inl err, n1)
      | (Inr sk, n1) \<Rightarrow>
          (case sock_SetOption T sk (OptionWriteQLen 1) n1 of
             (Some err, n2) \<Rightarrow> (Inl err, n2)
           | (None, n2) \<Rightarrow>
               (case sock_SetOption T sk (OptionSendDeadline deadline) n2 of
                  (Some err, n3) \<Rightarrow> (Inl err, n3)
                | (None, n3) \<Rightarrow>
                    (case sock_Dial T sk addr n3 of
                       (Some err, n4) \<Rightarrow> (Inl err, n4)
                     | (None, n4) \<Rightarrow> (Inr sk, n4)))))"

definition Sender_Dial ::
  "'n mangos \<Rightarrow> 'n Sender \<Rightarrow> 'n \<Rightarrow> error option \<times> 'n Sender \<times> 'n" where
  "Sender_Dial T s n =
     (if sock s \<noteq> None then (None, s, n)
      else case dialNewSocket T (url s) (sendDeadline s) n of
        (Inl err, n') \<Rightarrow> (Some err, s, n')
      | (Inr sk, n') \<Rightarrow> (None, s\<lparr>sock := Some sk\<rparr>, n'))"

definition visitOnClose :: "'n Sender \<Rightarrow> error option \<Rightarrow> 'n \<Rightarrow> 'n" where
  "visitOnClose s err n = foldl (\<lambda>n f. f err n) n (onClose s)"

definition Sender_Close ::
  "'n mangos \<Rightarrow> 'n Sender \<Rightarrow> 'n \<Rightarrow> error option \<times> 'n Sender \<times> 'n" where
  "Sender_Close T s n =
     (case sock s of
        Some sk \<Rightarrow>
          (case sock_Close T sk n of (_, n1) \<Rightarrow>
             (None, s\<lparr>sock := None\<rparr>, visitOnClose s None n1))
      | None \<Rightarrow> (None, s, n))"

text \<open>
  ProcessWRP hands the frame to a goroutine and waits for its answer \<open>rv\<close> or for the
  context, whichever comes first: when the context is done and \<open>done_first\<close> says that the
  select takes that case, the caller gets the context's error; the goroutine's effects are
  the same either way. A nil context stands for the background context.
\<close>

definition select_result :: "'n Context \<Rightarrow> bool \<Rightarrow> 'n \<Rightarrow> error option \<Rightarrow> error option" where
  "select_result ctx done_first n rv = (if done_first \<and> ctx n \<noteq> None then ctx n else rv)"

definition Sender_ProcessWRP ::
  "'n mangos \<Rightarrow> (Message \<Rightarrow> error + bytes) \<Rightarrow> bool \<Rightarrow>
   'n Sender \<Rightarrow> 'n Context option \<Rightarrow> Message \<Rightarrow> 'n \<Rightarrow> error option \<times> 'n Sender \<times> 'n" where
  "Sender_ProcessWRP T Encode done_first s ctx msg n =
     (let ctx = (case ctx of None \<Rightarrow> Background | Some c \<Rightarrow> c) in
      case Encode msg of
        Inl err \<Rightarrow> (Some err, s, n)
      | Inr buf \<Rightarrow>
          (case sock s of
             None \<Rightarrow> (Some ErrConnClosed, s, n)
           | Some sk \<Rightarrow>
               (case sock_Send T sk buf n of
                  (Some err, n1) \<Rightarrow>
                    (case sock_Close T sk n1 of (_, n2) \<Rightarrow>
                       (let n3 = visitOnClose s (errors_Join [Some err, Some ErrFailedToSend]) n2
                        in (select_result ctx done_first n3 (Some err), s\<lparr>sock := None\<rparr>, n3)))
                | (None, n1) \<Rightarrow>
                    (let err = (if ctx n1 \<noteq> None then ctx n1 else None)
                     in (select_result ctx done_first n1 err, s, n1)))))"

subsection \<open>Calls on a closed sender\<close>

text \<open>
  A run of Close and ProcessWRP calls on one sender, with the error each returns, and the
  answer expected from a sender that is not connected: nil for Close; for a send the
  encoder's error when the message does not encode, the connection-closed error otherwise.
\<close>

datatype 'n call = Call_Close | Call_ProcessWRP bool "'n Context option" Message

fun calls_result ::
  "'n mangos \<Rightarrow> (Message \<Rightarrow> error + bytes) \<Rightarrow> 'n call list \<Rightarrow> 'n Sender \<Rightarrow> 'n \<Rightarrow>
   error option list \<times> 'n Sender \<times> 'n" where
  "calls_result T Encode [] s n = ([], s, n)"
| "calls_result T Encode (Call_Close # cs) s n =
     (case Sender_Close T s n of (err, s', n') \<Rightarrow>
        (case calls_result T Encode cs s' n' of (errs, s'', n'') \<Rightarrow> (err # errs, s'', n'')))"
| "calls_result T Encode (Call_ProcessWRP done_first ctx msg # cs) s n =
     (case Sender_ProcessWRP T Encode done_first s ctx msg n of (err, s', n') \<Rightarrow>
        (case calls_result T Encode cs s' n' of (errs, s'', n'') \<Rightarrow> (err # errs, s'', n'')))"

definition closed_answer :: "(Message \<Rightarrow> error + bytes) \<Rightarrow> 'n call \<Rightarrow> error option" where
  "closed_answer Encode c =
     (case c of
        Call_Close \<Rightarrow> None
      | Call_ProcessWRP done_first ctx msg \<Rightarrow>
          (case Encode msg of Inl err \<Rightarrow> Some err | Inr buf \<Rightarrow> Some ErrConnClosed))"

subsection \<open>The production senders as the senders of the map\<close>

text \<open>
  \<^verbatim>\<open>sender.New\<close> and the options (\<^verbatim>\<open>internal/sender/options.go\<close>): the options are applied in
  order to the zero sender, then the URL is validated. \<open>tell\<close> turns a close listener into the
  function on the world that the sender keeps in \<open>onClose\<close>.
\<close>

definition Sender_zero :: "'x Sender" where
  "Sender_zero = \<lparr>url = [], onClose = [], sock = None, sendDeadline = 0\<rparr>"

fun apply_Option ::
  "(listener \<Rightarrow> error option \<Rightarrow> 'x \<Rightarrow> 'x) \<Rightarrow> Option \<Rightarrow> 'x Sender \<Rightarrow> 'x Sender" where
  "apply_Option tell (WithURL u) c = c\<lparr>url := u\<rparr>"
| "apply_Option tell (WithSendTimeout t) c = (if 0 < t then c\<lparr>sendDeadline := t\<rparr> else c)"
| "apply_Option tell (WithCloseListener f) c = c\<lparr>onClose := onClose c @ [tell f]\<rparr>"

definition Sender_New ::
  "(listener \<Rightarrow> error option \<Rightarrow> 'x \<Rightarrow> 'x) \<Rightarrow> Option list \<Rightarrow> error + 'x Sender" where
  "Sender_New tell opts =
     (let s = foldl (\<lambda>c opt. apply_Option tell opt c) Sender_zero opts
      in if url s = [] then Inl (Err ''url is required'') else Inr s)"

text \<open>
  The world of the production senders: the objects made so far, and outside them the
  world of the transport together with the list of the listener calls. A listener, when
  called, adds itself and its reason to that list; what the map's own listener then does is
  \<open>closeListener\<close>.
\<close>

record 'n production =
  made :: "ref \<Rightarrow> ('n \<times> notification list) Sender"
  next_ref :: nat
  outside :: "'n \<times> notification list"

definition tell :: "listener \<Rightarrow> error option \<Rightarrow> 'n \<times> notification list \<Rightarrow> 'n \<times> notification list" where
  "tell f err x = (fst x, snd x @ [(f, err)])"

definition production_told :: "'n production \<Rightarrow> notification list" where
  "production_told w = snd (outside w)"

text \<open>The transport, on a world that carries the list along.\<close>

definition with_list :: "'n mangos \<Rightarrow> ('n \<times> 'l) mangos" where
  "with_list T = \<lparr>
     NewSocket = (\<lambda>x. case NewSocket T (fst x) of (res, n) \<Rightarrow> (res, (n, snd x))),
     sock_SetOption = (\<lambda>sk opt x. case sock_SetOption T sk opt (fst x) of (err, n) \<Rightarrow> (err, (n, snd x))),
     sock_Dial = (\<lambda>sk addr x. case sock_Dial T sk addr (fst x) of (err, n) \<Rightarrow> (err, (n, snd x))),
     sock_Send = (\<lambda>sk buf x. case sock_Send T sk buf (fst x) of (err, n) \<Rightarrow> (err, (n, snd x))),
     sock_Close = (\<lambda>sk x. case sock_Close T sk (fst x) of (err, n) \<Rightarrow> (err, (n, snd x)))\<rparr>"

text \<open>
  The three methods of \<^verbatim>\<open>*sender.Sender\<close>, on the object at a reference, and the factory of
  \<^verbatim>\<open>Upsert\<close>, which puts the new sender at the next reference.
\<close>

definition production ::
  "'n mangos \<Rightarrow> (Message \<Rightarrow> error + bytes) \<Rightarrow> bool \<Rightarrow> 'n production limitedSender" where
  "production T Encode done_first = \<lparr>
     ProcessWRP = (\<lambda>r ctx msg w.
       case Sender_ProcessWRP (with_list T) Encode done_first (made w r)
              (Some (\<lambda>x. ctx (w\<lparr>outside := x\<rparr>))) msg (outside w) of
         (err, s, x) \<Rightarrow> (err, w\<lparr>made := (made w)(r := s), outside := x\<rparr>)),
     Dial = (\<lambda>r w.
       case Sender_Dial (with_list T) (made w r) (outside w) of
         (err, s, x) \<Rightarrow> (err, w\<lparr>made := (made w)(r := s), outside := x\<rparr>)),
     Close = (\<lambda>r w.
       case Sender_Close (with_list T) (made w r) (outside w) of
         (err, s, x) \<Rightarrow> (err, w\<lparr>made := (made w)(r := s), outside := x\<rparr>))\<rparr>"

definition sender_New :: "'n production limitedSenderFactory" where
  "sender_New opts w =
     (case Sender_New tell opts of
        Inl err \<Rightarrow> ((None, Some err), w)
      | Inr s \<Rightarrow>
          ((Some (next_ref w), None),
           w\<lparr>made := (made w)(next_ref w := s), next_ref := next_ref w + 1\<rparr>))"

section \<open>The inbound listener: Receiver\<close>

text \<open>
  \<^verbatim>\<open>internal/receiver/receiver.go\<close>. \<open>cancel\<close> says whether \<^verbatim>\<open>r.cancel\<close> is set, that is,
  whether the loop has been started and not stopped. The context of the loop comes from
  \<^verbatim>\<open>context.WithCancel(context.Background())\<close>: its error is nil or \<^verbatim>\<open>context.Canceled\<close>.
\<close>

record 'n Receiver =
  Receiver_url :: string
  timeout :: int
  onMsg :: "(Message \<Rightarrow> 'n \<Rightarrow> 'n) list"
  onFailure :: "(error option \<Rightarrow> 'n \<Rightarrow> 'n) list"
  cancel :: bool

text \<open>
  One turn of the loop waits in a select, and an \<open>event\<close> says which case the select took:
  the context was done; the receive failed with an error (a receive timeout is one); the
  receive returned a buffer (possibly nil). The flag of the last two says whether the
  context is cancelled by the time the loop reads \<^verbatim>\<open>ctx.Err()\<close> to return.
\<close>

datatype event =
    CtxDone
  | FromErrChan error bool
  | FromRecvChan "bytes option" bool

definition selected :: "event \<Rightarrow> bytes option \<times> error option" where
  "selected ev =
     (case ev of
        CtxDone \<Rightarrow> (None, Some Canceled)
      | FromErrChan err c \<Rightarrow> (None, Some err)
      | FromRecvChan buf c \<Rightarrow> (buf, None))"

definition ctx_Err :: "event \<Rightarrow> error option" where
  "ctx_Err ev =
     (case ev of
        CtxDone \<Rightarrow> Some Canceled
      | FromErrChan err c \<Rightarrow> (if c then Some Canceled else None)
      | FromRecvChan buf c \<Rightarrow> (if c then Some Canceled else None))"

definition visitOnMsg :: "'n Receiver \<Rightarrow> Message \<Rightarrow> 'n \<Rightarrow> 'n" where
  "visitOnMsg r msg n = foldl (\<lambda>n m. m msg n) n (onMsg r)"

definition visitOnFailure :: "'n Receiver \<Rightarrow> error option \<Rightarrow> 'n \<Rightarrow> 'n" where
  "visitOnFailure r err n = foldl (\<lambda>n f. f err n) n (onFailure r)"

text \<open>
  The loop on the events that occur, in order; \<open>None\<close> when it is still waiting after the
  last of them. The goroutine that hands a decoded message to the observers is run at once.
\<close>

fun receive ::
  "'n mangos \<Rightarrow> (bytes \<Rightarrow> error + Message) \<Rightarrow> 'n Receiver \<Rightarrow> socket \<Rightarrow> event list \<Rightarrow> 'n \<Rightarrow>
   (error option \<times> 'n) option" where
  "receive T Decode r sk [] n = None"
| "receive T Decode r sk (ev # evs) n =
     (case selected ev of (buf, err) \<Rightarrow>
        (case buf of
           Some b \<Rightarrow>
             (case Decode b of
                Inr msg \<Rightarrow> receive T Decode r sk evs (visitOnMsg r msg n)
              | Inl _ \<Rightarrow> receive T Decode r sk evs n)
         | None \<Rightarrow>
             if errors_Is err (Some ErrRecvTimeout) then receive T Decode r sk evs n
             else (case sock_Close T sk n of (_, n') \<Rightarrow>
               Some (errors_Join [err, ctx_Err ev], n'))))"

text \<open>
  The goroutine that Listen starts is either in the loop, on its socket, or past it, with
  the error the loop returned.
\<close>

datatype goroutine = Receiving socket | Returned "error option"

text \<open>
  Once \<^verbatim>\<open>r.cancel()\<close> has been called the context is done for good: every later turn of
  the loop reads a cancelled context, and the done case of its select is ready in every
  turn.
\<close>

definition after_cancel :: "event \<Rightarrow> event" where
  "after_cancel ev =
     (case ev of
        CtxDone \<Rightarrow> CtxDone
      | FromErrChan err c \<Rightarrow> FromErrChan err True
      | FromRecvChan buf c \<Rightarrow> FromRecvChan buf True)"

text \<open>
  Close. On a receiver that runs: \<^verbatim>\<open>r.cancel()\<close>, \<^verbatim>\<open>r.cancel = nil\<close>, then
  \<^verbatim>\<open>r.wg.Wait()\<close>, which returns when the loop has returned. While Close waits, the loop
  goes on under the cancelled context. Its select never blocks again, and it picks among
  the cases that are ready: \<open>late\<close> are the events it still takes from the two channels,
  and then it takes the done case. Close returns after the loop, in the world the loop
  left, and \<open>None\<close> stands for a Close that waits for ever. When the loop has returned
  already there is nothing to wait for. The value returned is nil on both paths. (The
  wait also covers the goroutines that the loop started to call \<^verbatim>\<open>sock.Recv\<close>; they
  end when the loop closes the socket, and have no part here.)
\<close>

definition Receiver_Close ::
  "'n mangos \<Rightarrow> (bytes \<Rightarrow> error + Message) \<Rightarrow> event list \<Rightarrow> 'n Receiver \<Rightarrow> goroutine \<Rightarrow> 'n \<Rightarrow>
   (error option \<times> 'n Receiver \<times> goroutine \<times> 'n) option" where
  "Receiver_Close T Decode late r g n =
     (if cancel r then
        (case g of
           Receiving sk \<Rightarrow>
             (case receive T Decode r sk (map after_cancel late @ [CtxDone]) n of
                None \<Rightarrow> None
              | Some (err, n') \<Rightarrow> Some (None, r\<lparr>cancel := False\<rparr>, Returned err, n'))
         | Returned err \<Rightarrow> Some (None, r\<lparr>cancel := False\<rparr>, g, n))
      else Some (None, r, g, n))"

text \<open>
  \<open>wrapper\<close> is the goroutine Listen starts: the loop, then Close, then the close listeners
  with the loop's error. \<open>after_receive\<close> is its part after the loop has returned \<open>err\<close>.
\<close>

definition after_receive ::
  "'n mangos \<Rightarrow> (bytes \<Rightarrow> error + Message) \<Rightarrow> 'n Receiver \<Rightarrow> error option \<Rightarrow> 'n \<Rightarrow>
   ('n Receiver \<times> 'n) option" where
  "after_receive T Decode r err n =
     (case Receiver_Close T Decode [] r (Returned err) n of
        None \<Rightarrow> None
      | Some (_, r', _, n') \<Rightarrow> Some (r', visitOnFailure r' err n'))"

definition wrapper ::
  "'n mangos \<Rightarrow> (bytes \<Rightarrow> error + Message) \<Rightarrow> 'n Receiver \<Rightarrow> socket \<Rightarrow> event list \<Rightarrow> 'n \<Rightarrow>
   ('n Receiver \<times> 'n) option" where
  "wrapper T Decode r sk evs n =
     (case receive T Decode r sk evs n of
        None \<Rightarrow> None
      | Some (err, n1) \<Rightarrow> after_receive T Decode r err n1)"

subsection \<open>Events that do not end the loop\<close>

text \<open>
  A receive timeout and a non-nil buffer keep the loop going; \<open>dispatched\<close> lists the
  messages decoded from the buffers of such events.
\<close>

definition keeps_receiving :: "event \<Rightarrow> bool" where
  "keeps_receiving ev =
     (case ev of
        CtxDone \<Rightarrow> False
      | FromErrChan err c \<Rightarrow> errors_Is (Some err) (Some ErrRecvTimeout)
      | FromRecvChan buf c \<Rightarrow> buf \<noteq> None)"

fun dispatched :: "(bytes \<Rightarrow> error + Message) \<Rightarrow> event list \<Rightarrow> Message list" where
  "dispatched Decode [] = []"
| "dispatched Decode (FromRecvChan (Some b) c # evs) =
     (case Decode b of Inr msg \<Rightarrow> msg # dispatched Decode evs | Inl _ \<Rightarrow> dispatched Decode evs)"
| "dispatched Decode (ev # evs) = dispatched Decode evs"

section \<open>A transport for the examples\<close>

text \<open>
  A transport in the manner of the sender test's \<^verbatim>\<open>mockSocket\<close>: sockets are numbered as
  they are made, Send returns \<open>sendRv\<close> and records the frame when that is nil, Dial refuses
  the address of the test. \<open>closeRecorder\<close> is a close listener that records its reason, as
  the listeners of the tests do. The encoder and decoder stand in for msgpack.
\<close>

record net =
  sockets :: nat
  sendRv :: "error option"
  frames :: "(socket \<times> bytes) list"
  closed :: "socket list"
  notified :: "error option list"

definition test_mangos :: "net mangos" where
  "test_mangos = \<lparr>
     NewSocket = (\<lambda>n. (Inr (sockets n), n\<lparr>sockets := sockets n + 1\<rparr>)),
     sock_SetOption = (\<lambda>sk opt n. (None, n)),
     sock_Dial = (\<lambda>sk addr n.
       (if addr = ''invalid://url'' then Some (Err ''invalid address'') else None, n)),
     sock_Send = (\<lambda>sk buf n.
       (sendRv n, if sendRv n = None then n\<lparr>frames := frames n @ [(sk, buf)]\<rparr> else n)),
     sock_Close = (\<lambda>sk n. (None, n\<lparr>closed := closed n @ [sk]\<rparr>))\<rparr>"

definition test_Encode :: "Message \<Rightarrow> error + bytes" where
  "test_Encode msg = Inr (Payload msg)"

definition closeRecorder :: "error option \<Rightarrow> net \<Rightarrow> net" where
  "closeRecorder err n = n\<lparr>notified := notified n @ [err]\<rparr>"

definition dialed :: "net Sender" where
  "dialed = \<lparr>url = ''tcp://127.0.0.1:6667'', onClose = [closeRecorder], sock = Some 0,
     sendDeadline = 0\<rparr>"

definition one_socket :: net where
  "one_socket = \<lparr>sockets = 1, sendRv = None, frames = [], closed = [], notified = []\<rparr>"

definition test_message :: Message where
  "test_message = Message_zero\<lparr>Payload := [116, 101, 115, 116]\<rparr>"

definition close_then_dial :: "net Sender \<times> net" where
  "close_then_dial =
     (case Sender_Close test_mangos dialed one_socket of
        (_, s1, n1) \<Rightarrow> snd (Sender_Dial test_mangos s1 n1))"

definition test_Decode :: "bytes \<Rightarrow> error + Message" where
  "test_Decode buf = Inr (Message_zero\<lparr>Payload := buf\<rparr>)"

definition listening :: "net Receiver" where
  "listening = \<lparr>Receiver_url = ''tcp://127.0.0.1:6666'', timeout = 100, onMsg = [],
     onFailure = [closeRecorder], cancel = True\<rparr>"

subsection \<open>The map over production senders on that transport\<close>

text \<open>
  A world with no sender yet, the three methods of the production sender on the example
  transport, and a peer that starts or stops refusing frames: \<open>peer rv\<close> makes every later
  Send of the transport return \<open>rv\<close>.
\<close>

definition quiet :: net where
  "quiet = \<lparr>sockets = 0, sendRv = None, frames = [], closed = [], notified = []\<rparr>"

definition no_production :: "net production" where
  "no_production = \<lparr>made = (\<lambda>r. Sender_zero), next_ref = 0, outside = (quiet, [])\<rparr>"

definition real_senders :: "net production limitedSender" where
  "real_senders = production test_mangos test_Encode False"

definition peer :: "error option \<Rightarrow> net production \<Rightarrow> net production" where
  "peer rv w = w\<lparr>outside := ((fst (outside w))\<lparr>sendRv := rv\<rparr>, snd (outside w))\<rparr>"

text \<open>
  The steps of the examples, on a table and a world: the service registers at its URL; a
  request for the service is dispatched while the peer refuses frames, so that the send
  fails and the sender tears its socket down and calls its close listeners.
\<close>

definition register ::
  "senderMap \<times> net production \<Rightarrow> error option outcome \<times> senderMap \<times> net production" where
  "register st =
     upsert real_senders production_told ''service_1'' [WithURL ''tcp://127.0.0.1:6667'']
       sender_New (fst st) (snd st)"

definition send_fails :: "senderMap \<times> net production \<Rightarrow> senderMap \<times> net production" where
  "send_fails st =
     (fst st,
      snd (senderMap_ProcessWRP real_senders test_ParseLocator [] (fst st) Background
             (request ''mac:112233445566/service_1/ignored'')
             (peer (Some (Err ''send error'')) (snd st))))"

text \<open>
  \<open>registered\<close>: the service has registered once (sender 0). \<open>disconnected\<close>: then a send to
  it has failed: the sender has torn its socket down and, in the goroutine of the send, has
  called its listener, which has not taken the map's lock yet, so that the table is as it
  was. \<open>superseded\<close>: then the peer answers again and the service has registered a second
  time (sender 1), the listener of sender 0 still waiting. \<open>both_failed\<close>: then a send to
  sender 1 has failed as well, and its listener has been called after that of sender 0.
  What a listener does once it has the lock is \<open>closeListener\<close>.
\<close>

definition registered :: "senderMap \<times> net production" where
  "registered = snd (register (empty_map, no_production))"

definition disconnected :: "senderMap \<times> net production" where
  "disconnected = send_fails registered"

definition superseded :: "senderMap \<times> net production" where
  "superseded = snd (register (fst disconnected, peer None (snd disconnected)))"

definition both_failed :: "senderMap \<times> net production" where
  "both_failed = send_fails superseded"

section \<open>Properties of the processor chain\<close>

lemma ProcessWRP_append:
  "every_not_handled pre ctx msg s \<Longrightarrow>
   Processors_ProcessWRP (pre @ post) ctx msg s =
   Processors_ProcessWRP post ctx msg (world_after pre ctx msg s)"
proof (induction pre arbitrary: s)
  case Nil
  then show ?case by (simp add: world_after_def)
next
  case (Cons proc pre)
  then show ?case
    by (cases proc) (auto simp: world_after_def invoke_def split: prod.splits)
qed

text \<open>
  C1. The chain invokes its processors in the order of the slice and skips nil entries.
  (1) When every processor answers not-handled, the chain answers the not-handled sentinel,
  having invoked them all. (2) When the processors of \<open>pre\<close> answer not-handled and the next
  one, \<open>f\<close>, answers \<open>r\<close> which is not not-handled (an error or nil), the chain returns \<open>r\<close> and
  the world is the one \<open>f\<close> left: no processor of \<open>post\<close> has been invoked. (3) When the
  context is found cancelled before an entry, after the processors of \<open>before\<close> answered
  not-handled, the chain returns the context's error and the world is the one \<open>before\<close> left:
  neither that entry nor one of \<open>rest\<close> has been invoked.
\<close>

theorem ProcessWRP_first_result:
  "(every_not_handled p ctx msg s \<longrightarrow>
      Processors_ProcessWRP p ctx msg s = (Some ErrNotHandled, world_after p ctx msg s))
   \<and> (every_not_handled pre ctx msg s \<and> ctx (world_after pre ctx msg s) = None \<and>
      f ctx msg (world_after pre ctx msg s) = (r, s') \<and> \<not> errors_Is r (Some ErrNotHandled) \<longrightarrow>
      Processors_ProcessWRP (pre @ Some f # post) ctx msg s = (r, s'))
   \<and> (every_not_handled before ctx msg s \<and> ctx (world_after before ctx msg s) = Some e \<longrightarrow>
      Processors_ProcessWRP (before @ proc # rest) ctx msg s =
        (Some e, world_after before ctx msg s))"
proof (intro conjI impI)
  assume "every_not_handled p ctx msg s"
  from ProcessWRP_append [OF this, of "[]"]
  show "Processors_ProcessWRP p ctx msg s = (Some ErrNotHandled, world_after p ctx msg s)"
    by simp
next
  assume "every_not_handled pre ctx msg s \<and> ctx (world_after pre ctx msg s) = None \<and>
      f ctx msg (world_after pre ctx msg s) = (r, s') \<and> \<not> errors_Is r (Some ErrNotHandled)"
  then show "Processors_ProcessWRP (pre @ Some f # post) ctx msg s = (r, s')"
    by (simp add: ProcessWRP_append)
next
  assume "every_not_handled before ctx msg s \<and> ctx (world_after before ctx msg s) = Some e"
  then show "Processors_ProcessWRP (before @ proc # rest) ctx msg s =
        (Some e, world_after before ctx msg s)"
    by (simp add: ProcessWRP_append)
qed

text \<open>
  The cases of the package's test, with call counts: three entries that all answer
  not-handled (one nil, one joined around the sentinel); an error that stops the chain
  before the third processor; a processor that cancels the context, so that the next one is
  not invoked.
\<close>

theorem ProcessWRP_first_result_witness:
  "every_not_handled
      [Some (mockProcessor (called 0) (Some ErrNotHandled)), None,
       Some (mockProcessor (called 2) (Some (Joined [Err ''no route'', ErrNotHandled])))]
      ctx_of_flag Message_zero ([], False)
   \<and> Processors_ProcessWRP
      [Some (mockProcessor (called 0) (Some ErrNotHandled)), None,
       Some (mockProcessor (called 2) (Some (Joined [Err ''no route'', ErrNotHandled])))]
      ctx_of_flag Message_zero ([], False) = (Some ErrNotHandled, ([0, 2], False))
   \<and> every_not_handled [Some (mockProcessor (called 0) (Some ErrNotHandled))]
      ctx_of_flag Message_zero ([], False)
   \<and> \<not> errors_Is (Some (Err ''some error'')) (Some ErrNotHandled)
   \<and> Processors_ProcessWRP
      ([Some (mockProcessor (called 0) (Some ErrNotHandled))] @
       Some (mockProcessor (called 1) (Some (Err ''some error''))) #
       [Some (mockProcessor (called 2) None)])
      ctx_of_flag Message_zero ([], False) = (Some (Err ''some error''), ([0, 1], False))
   \<and> every_not_handled [Some (mockProcessor (cancel_ctx \<circ> called 0) (Some ErrNotHandled))]
      ctx_of_flag Message_zero ([], False)
   \<and> Processors_ProcessWRP
      ([Some (mockProcessor (cancel_ctx \<circ> called 0) (Some ErrNotHandled))] @
       Some (mockProcessor (called 1) None) # [])
      ctx_of_flag Message_zero ([], False) = (Some Canceled, ([0], True))"
  using ProcessWRP_first_result
    [where p = "[Some (mockProcessor (called 0) (Some ErrNotHandled)), None,
       Some (mockProcessor (called 2) (Some (Joined [Err ''no route'', ErrNotHandled])))]"
      and ctx = ctx_of_flag and msg = Message_zero and s = "([], False)"
      and pre = "[Some (mockProcessor (called 0) (Some ErrNotHandled))]"
      and f = "mockProcessor (called 1) (Some (Err ''some error''))"
      and r = "Some (Err ''some error'')" and s' = "([0, 1], False)"
      and post = "[Some (mockProcessor (called 2) None)]"
      and before = "[Some (mockProcessor (cancel_ctx \<circ> called 0) (Some ErrNotHandled))]"
      and e = Canceled and proc = "Some (mockProcessor (called 1) None)" and rest = "[]"]
  by (simp add: mockProcessor_def called_def cancel_ctx_def ctx_of_flag_def errors_Is_def
      world_after_def invoke_def)

text \<open>
  C10. The chain with no processors returns the not-handled sentinel for every message and
  every context, cancelled or not, and leaves the world alone: the cancellation check is
  inside the loop body, which an empty chain never enters.
\<close>

theorem ProcessWRP_empty_chain:
  "Processors_ProcessWRP [] ctx msg s = (Some ErrNotHandled, s)"
  by simp

section \<open>Properties of the routing table\<close>

lemma send_to_all_foldl:
  "send_to_all I ss ctx msg w = foldl (\<lambda>w s. snd (ProcessWRP I s ctx msg w)) w ss"
  by (induction ss arbitrary: w) (auto split: prod.splits)

lemma map_filter_all_Some:
  "\<forall>k \<in> set ks. f k \<noteq> None \<Longrightarrow> List.map_filter f ks = map (the \<circ> f) ks"
  by (induction ks) auto

text \<open>
  C5. A liveness announcement (type ServiceAlive) is sent to every sender of the table,
  whatever their number: when \<open>order\<close> is the order in which the keys are visited (each key
  of the table once), the senders copied are those registered at these keys, as many as the
  table has entries; send is invoked on each of them in turn, on the world the previous send
  left, whatever error the previous sends returned; and the call returns nil.
\<close>

theorem broadcast_reaches_every_sender:
  assumes "Type msg = ServiceAliveMessageType"
    and "distinct order"
    and "set order = {name. lookup sm name \<noteq> None}"
  shows "senderMap_ProcessWRP I ParseLocator order sm ctx msg w =
           (None, foldl (\<lambda>w s. snd (ProcessWRP I s ctx msg w)) w (map (the \<circ> lookup sm) order))
         \<and> length (map (the \<circ> lookup sm) order) = card {name. lookup sm name \<noteq> None}"
proof -
  from assms(3) have "\<forall>k \<in> set order. lookup sm k \<noteq> None" by simp
  then have "List.map_filter (lookup sm) order = map (the \<circ> lookup sm) order"
    by (rule map_filter_all_Some)
  moreover have "length order = card {name. lookup sm name \<noteq> None}"
    using assms(2,3) distinct_card by fastforce
  ultimately show ?thesis
    using assms(1) by (simp add: senderMap_ProcessWRP_def send_to_all_foldl)
qed

theorem broadcast_reaches_every_sender_witness:
  "Type alive = ServiceAliveMessageType
   \<and> distinct [''service_2'', ''service_1'']
   \<and> set [''service_2'', ''service_1''] = {name. lookup two_services name \<noteq> None}
   \<and> fst (senderMap_ProcessWRP mock test_ParseLocator [''service_2'', ''service_1'']
        two_services Background alive two_mocks) = None
   \<and> processErr (objs two_mocks 0) = Some (Err ''random error'')
   \<and> processCount (objs (snd (senderMap_ProcessWRP mock test_ParseLocator
        [''service_2'', ''service_1''] two_services Background alive two_mocks)) 0) = 1
   \<and> processCount (objs (snd (senderMap_ProcessWRP mock test_ParseLocator
        [''service_2'', ''service_1''] two_services Background alive two_mocks)) 1) = 1
   \<and> card {name. lookup two_services name \<noteq> None} = 2
   \<and> set [] = {name. lookup empty_map name \<noteq> None}
   \<and> senderMap_ProcessWRP mock test_ParseLocator [] empty_map Background alive two_mocks =
       (None, two_mocks)"
proof -
  have h1: "Type alive = ServiceAliveMessageType"
    by (simp add: alive_def Message_zero_def)
  have h2: "distinct [''service_2'', ''service_1'']"
    by simp
  have h3: "set [''service_2'', ''service_1''] = {name. lookup two_services name \<noteq> None}"
    by (auto simp: lookup_def two_services_def split: if_splits)
  have h4: "set [] = {name. lookup empty_map name \<noteq> None}"
    by (simp add: lookup_def empty_map_def)
  from broadcast_reaches_every_sender [OF h1 h2 h3, of mock test_ParseLocator Background two_mocks]
    broadcast_reaches_every_sender [OF h1 _ h4, of mock test_ParseLocator Background two_mocks]
  show ?thesis
    using h1 h3 h4
    by (simp add: lookup_def two_services_def two_mocks_def mock_def mockSender_zero_def)
qed

text \<open>
  C6. For a message that is not a liveness announcement: a parse error of the destination
  is returned as it is and nothing is sent; when the locator parses and the table has no
  entry for its service, the result is the not-handled sentinel and nothing is sent; when
  the table has an entry, the result and the effect are those of that sender's send.
\<close>

theorem unicast_result:
  assumes "Type msg \<noteq> ServiceAliveMessageType"
  shows "(ParseLocator (To msg) = Inl err \<longrightarrow>
            senderMap_ProcessWRP I ParseLocator order sm ctx msg w = (Some err, w))
       \<and> (ParseLocator (To msg) = Inr dest \<and> lookup sm (Service dest) = None \<longrightarrow>
            senderMap_ProcessWRP I ParseLocator order sm ctx msg w = (Some ErrNotHandled, w))
       \<and> (ParseLocator (To msg) = Inr dest \<and> lookup sm (Service dest) = Some target \<longrightarrow>
            senderMap_ProcessWRP I ParseLocator order sm ctx msg w = ProcessWRP I target ctx msg w)"
  using assms by (simp add: senderMap_ProcessWRP_def)

theorem unicast_result_witness:
  "Type (request ''mac:112233445566/service_1/ignored'') \<noteq> ServiceAliveMessageType
   \<and> senderMap_ProcessWRP mock test_ParseLocator [] two_services Background
        (request ''service_1/ignored'') two_mocks = (Some ErrorInvalidLocator, two_mocks)
   \<and> senderMap_ProcessWRP mock test_ParseLocator [] two_services Background
        (request ''mac:112233445566/invalid/ignored'') two_mocks = (Some ErrNotHandled, two_mocks)
   \<and> senderMap_ProcessWRP mock test_ParseLocator [] two_services Background
        (request ''mac:112233445566/service_1/ignored'') two_mocks =
      ProcessWRP mock 0 Background (request ''mac:112233445566/service_1/ignored'') two_mocks
   \<and> fst (ProcessWRP mock 0 Background (request ''mac:112233445566/service_1/ignored'')
        two_mocks) = Some (Err ''random error'')"
proof -
  have t: "\<And>d. Type (request d) \<noteq> ServiceAliveMessageType"
    by (simp add: request_def ServiceAliveMessageType_def SimpleRequestResponseMessageType_def)
  note a = unicast_result [where ParseLocator = test_ParseLocator
      and msg = "request ''service_1/ignored''" and err = ErrorInvalidLocator and I = mock
      and order = "[]" and sm = two_services and ctx = Background and w = two_mocks, OF t]
  note b = unicast_result [where ParseLocator = test_ParseLocator
      and msg = "request ''mac:112233445566/invalid/ignored''" and I = mock
      and order = "[]" and sm = two_services and ctx = Background and w = two_mocks
      and dest = "\<lparr>Scheme = ''mac'', Authority = ''112233445566'', Service = ''invalid'',
          Ignored = ''/ignored''\<rparr>", OF t]
  note c = unicast_result [where ParseLocator = test_ParseLocator
      and msg = "request ''mac:112233445566/service_1/ignored''" and I = mock
      and order = "[]" and sm = two_services and ctx = Background and w = two_mocks
      and dest = "\<lparr>Scheme = ''mac'', Authority = ''112233445566'', Service = ''service_1'',
          Ignored = ''/ignored''\<rparr>" and target = 0, OF t]
  show ?thesis
    using a b c t
    by (simp add: test_ParseLocator_def To_def request_def Message_zero_def lookup_def
        two_services_def two_mocks_def mock_def mockSender_zero_def)
qed

lemma no_removals_called:
  "removals ns = [] \<Longrightarrow> listeners_called I told ns sm w = (Returns (), sm, w)"
proof (induction ns)
  case Nil
  then show ?case by simp
next
  case (Cons n ns)
  obtain f err where n: "n = (f, err)" by (cases n)
  from Cons show ?case
    by (cases f) (simp_all add: n)
qed

lemma Sender_New_unconnected:
  "sock (foldl (\<lambda>c opt. apply_Option tf opt c) c0 opts) = sock c0"
proof (induction opts arbitrary: c0)
  case Nil
  show ?case by simp
next
  case (Cons opt opts)
  have "sock (apply_Option tf opt c0) = sock c0"
    by (cases opt) simp_all
  with Cons show ?case by simp
qed

lemma Sender_New_sock: "Sender_New tf opts = Inr s \<Longrightarrow> sock s = None"
  using Sender_New_unconnected [of tf Sender_zero opts]
  by (auto simp: Sender_New_def Let_def Sender_zero_def split: if_splits)

lemma Sender_Dial_failed:
  "sock s = None \<Longrightarrow> Sender_Dial T s x = (Some e, s', x') \<Longrightarrow> s' = s"
  by (auto simp: Sender_Dial_def split: prod.splits sum.splits)

lemma Sender_Close_unconnected: "sock s = None \<Longrightarrow> Sender_Close T s x = (None, s, x)"
  by (simp add: Sender_Close_def)

lemma calls_same: "calls told w w = []"
  by (simp add: calls_def)

text \<open>
  C7. When the factory returns an error, upsert returns that error, calls no method of a
  sender and returns the table as it was. When the factory built a sender and its Dial
  fails, upsert closes that sender (once, the error of Close dropped), returns the error
  of Dial and returns the table as it was, for every sender whose Close, called on the
  sender that failed to dial, calls no listener that removes from the table. The production
  sender is such a sender, on every transport: when \<^verbatim>\<open>sender.New\<close> rejects the options,
  upsert returns its error and nothing has changed; when \<^verbatim>\<open>sender.New\<close> built the sender
  and its Dial fails, the sender was never connected, its Close does nothing, and upsert
  returns the error of Dial with the table as it was and the world as Dial left it.
\<close>

theorem upsert_failure_leaves_table:
  "(factory (opts @ [WithCloseListener (SelfRemoval name)]) w = ((s, Some e), wa) \<longrightarrow>
      upsert I told name opts factory sm w = (Returns (Some e), sm, wa))
   \<and> (factory (opts @ [WithCloseListener (SelfRemoval name)]) w = ((Some new, None), wa) \<and>
      Dial I new wa = (Some e, wb) \<and> removals (calls told wb (snd (Close I new wb))) = [] \<longrightarrow>
      upsert I told name opts factory sm w = (Returns (Some e), sm, snd (Close I new wb)))
   \<and> (Sender_New tell (opts @ [WithCloseListener (SelfRemoval name)]) =
        (Inl e :: error + ('n \<times> notification list) Sender) \<longrightarrow>
      upsert (production T Encode done_first) production_told name opts sender_New sm
          (p :: 'n production) =
        (Returns (Some e), sm, p))
   \<and> (Sender_New tell (opts @ [WithCloseListener (SelfRemoval name)]) = Inr c \<and>
      Sender_Dial (with_list T) c (outside p) = (Some e, c', x) \<longrightarrow>
      upsert (production T Encode done_first) production_told name opts sender_New sm p =
        (Returns (Some e), sm,
         p\<lparr>made := (made p)(next_ref p := c), next_ref := next_ref p + 1, outside := x\<rparr>))"
proof (intro conjI impI)
  assume "factory (opts @ [WithCloseListener (SelfRemoval name)]) w = ((s, Some e), wa)"
  then show "upsert I told name opts factory sm w = (Returns (Some e), sm, wa)"
    by (simp add: upsert_def)
next
  assume h: "factory (opts @ [WithCloseListener (SelfRemoval name)]) w = ((Some new, None), wa) \<and>
      Dial I new wa = (Some e, wb) \<and> removals (calls told wb (snd (Close I new wb))) = []"
  then have "listeners_called I told (calls told wb (snd (Close I new wb))) sm (snd (Close I new wb)) =
      (Returns (), sm, snd (Close I new wb))"
    by (simp add: no_removals_called)
  with h show "upsert I told name opts factory sm w = (Returns (Some e), sm, snd (Close I new wb))"
    by (auto simp: upsert_def split: prod.splits)
next
  assume "Sender_New tell (opts @ [WithCloseListener (SelfRemoval name)]) =
        (Inl e :: error + ('n \<times> notification list) Sender)"
  then show "upsert (production T Encode done_first) production_told name opts sender_New sm p =
        (Returns (Some e), sm, p)"
    by (simp add: upsert_def sender_New_def)
next
  assume h: "Sender_New tell (opts @ [WithCloseListener (SelfRemoval name)]) = Inr c \<and>
      Sender_Dial (with_list T) c (outside p) = (Some e, c', x)"
  let ?p1 = "p\<lparr>made := (made p)(next_ref p := c), next_ref := next_ref p + 1\<rparr>"
  let ?p2 = "p\<lparr>made := (made p)(next_ref p := c), next_ref := next_ref p + 1, outside := x\<rparr>"
  from h have made_c: "Sender_New tell (opts @ [WithCloseListener (SelfRemoval name)]) = Inr c"
    and dial_c: "Sender_Dial (with_list T) c (outside p) = (Some e, c', x)"
    by simp_all
  from made_c have unconnected: "sock c = None"
    by (rule Sender_New_sock)
  from unconnected dial_c have same: "c' = c"
    by (rule Sender_Dial_failed)
  from h have new: "sender_New (opts @ [WithCloseListener (SelfRemoval name)]) p =
      ((Some (next_ref p), None), ?p1)"
    by (simp add: sender_New_def)
  from h same have dial: "Dial (production T Encode done_first) (next_ref p) ?p1 = (Some e, ?p2)"
    by (simp add: production_def)
  from unconnected have close: "Close (production T Encode done_first) (next_ref p) ?p2 = (None, ?p2)"
    by (simp add: production_def Sender_Close_unconnected)
  show "upsert (production T Encode done_first) production_told name opts sender_New sm p =
      (Returns (Some e), sm, ?p2)"
    using new dial close by (simp add: upsert_def calls_same)
qed


theorem upsert_failure_leaves_table_witness:
  "failing_factory (Err ''factory error'') ([] @ [WithCloseListener (SelfRemoval ''service_1'')])
      no_senders = ((None, Some (Err ''factory error'')), no_senders)
   \<and> upsert mock (\<lambda>w. []) ''service_1'' [] (failing_factory (Err ''factory error'')) empty_map
        no_senders =
      (Returns (Some (Err ''factory error'')), empty_map, no_senders)
   \<and> fst (upsert mock (\<lambda>w. []) ''service_1'' []
        (mock_factory (mockSender_zero\<lparr>dialErr := Some (Err ''dial error'')\<rparr>))
        two_services two_mocks) = Returns (Some (Err ''dial error''))
   \<and> fst (snd (upsert mock (\<lambda>w. []) ''service_1'' []
        (mock_factory (mockSender_zero\<lparr>dialErr := Some (Err ''dial error'')\<rparr>))
        two_services two_mocks)) = two_services
   \<and> closeCount (objs (snd (snd (upsert mock (\<lambda>w. []) ''service_1'' []
        (mock_factory (mockSender_zero\<lparr>dialErr := Some (Err ''dial error'')\<rparr>))
        two_services two_mocks))) 2) = 1
   \<and> closeCount (objs (snd (snd (upsert mock (\<lambda>w. []) ''service_1'' []
        (mock_factory (mockSender_zero\<lparr>dialErr := Some (Err ''dial error'')\<rparr>))
        two_services two_mocks))) 0) = 0
   \<and> upsert real_senders production_told ''service_1'' [] sender_New
        (fst registered) (snd registered) =
      (Returns (Some (Err ''url is required'')), fst registered, snd registered)
   \<and> fst (upsert real_senders production_told ''service_1'' [WithURL ''invalid://url'']
        sender_New (fst registered) (snd registered)) = Returns (Some (Err ''invalid address''))
   \<and> fst (snd (upsert real_senders production_told ''service_1'' [WithURL ''invalid://url'']
        sender_New (fst registered) (snd registered))) = fst registered"
proof -
  let ?failing = "mockSender_zero\<lparr>dialErr := Some (Err ''dial error'')\<rparr>"
  let ?w = "two_mocks\<lparr>objs := (objs two_mocks)(2 := ?failing), allocated := 3\<rparr>"
  let ?c = "\<lparr>url = ''invalid://url'', onClose = [tell (SelfRemoval ''service_1'')],
          sock = None, sendDeadline = 0\<rparr> :: (net \<times> notification list) Sender"
  let ?x = "((fst (outside (snd registered)))
          \<lparr>sockets := sockets (fst (outside (snd registered))) + 1\<rparr>,
          snd (outside (snd registered)))"
  have h1: "failing_factory (Err ''factory error'')
      ([] @ [WithCloseListener (SelfRemoval ''service_1'')]) no_senders =
      ((None, Some (Err ''factory error'')), no_senders)"
    by (simp add: failing_factory_def)
  have h2: "mock_factory ?failing ([] @ [WithCloseListener (SelfRemoval ''service_1'')]) two_mocks =
      ((Some 2, None), ?w) \<and> Dial mock 2 ?w = (Some (Err ''dial error''), ?w) \<and>
      removals (calls (\<lambda>w. []) ?w (snd (Close mock 2 ?w))) = []"
    by (simp add: mock_factory_def mock_def two_mocks_def calls_def)
  have h3: "Sender_New tell ([] @ [WithCloseListener (SelfRemoval ''service_1'')]) =
      (Inl (Err ''url is required'') :: error + (net \<times> notification list) Sender)"
    by (simp add: Sender_New_def Sender_zero_def)
  have h4: "Sender_New tell ([WithURL ''invalid://url''] @
        [WithCloseListener (SelfRemoval ''service_1'')]) = Inr ?c \<and>
      Sender_Dial (with_list test_mangos) ?c (outside (snd registered)) =
        (Some (Err ''invalid address''), ?c, ?x)"
    by (simp add: Sender_New_def Sender_zero_def Sender_Dial_def dialNewSocket_def
        with_list_def test_mangos_def split: prod.splits)
  note r1 = upsert_failure_leaves_table
    [where factory = "failing_factory (Err ''factory error'')" and opts = "[]"
      and name = "''service_1''" and w = no_senders and s = None and e = "Err ''factory error''"
      and wa = no_senders and I = mock and sm = empty_map and told = "\<lambda>w. []",
      THEN conjunct1, THEN mp, OF h1]
  note r2 = upsert_failure_leaves_table
    [where factory = "mock_factory ?failing"
      and opts = "[]" and name = "''service_1''" and w = two_mocks and new = 2
      and e = "Err ''dial error''" and I = mock and sm = two_services and told = "\<lambda>w. []"
      and wa = ?w and wb = ?w, THEN conjunct2, THEN conjunct1, THEN mp, OF h2]
  note r3 = upsert_failure_leaves_table
    [where opts = "[]" and name = "''service_1''" and e = "Err ''url is required''"
      and T = test_mangos and Encode = test_Encode and done_first = False
      and sm = "fst registered" and p = "snd registered",
      THEN conjunct2, THEN conjunct2, THEN conjunct1, THEN mp, OF h3]
  note r4 = upsert_failure_leaves_table
    [where opts = "[WithURL ''invalid://url'']" and name = "''service_1''"
      and e = "Err ''invalid address''"
      and T = test_mangos and Encode = test_Encode and done_first = False
      and sm = "fst registered" and p = "snd registered" and c = ?c and c' = ?c and x = ?x,
      THEN conjunct2, THEN conjunct2, THEN conjunct2, THEN mp, OF h4]
  from h1 r1 r2 r3 r4 show ?thesis
    by (simp add: real_senders_def mock_def two_mocks_def mockSender_zero_def)
qed

text \<open>
  C9. The registration handler returns the not-handled sentinel for a message of another
  type, and the invalid-message error for a registration whose service name or URL is
  empty; in both cases the server and the senders are untouched. For a registration with
  both fields it returns what upsert returns for that service name, with the server's
  sender options followed by the URL option and the factory \<^verbatim>\<open>sender.New\<close>, and the
  server's table and the world are the ones upsert left.
\<close>

theorem handleRegisterMsg_cases:
  "(Type msg \<noteq> ServiceRegistrationMessageType \<longrightarrow>
      handleRegisterMsg I told New srv ctx msg w = (Returns (Some ErrNotHandled), srv, w))
   \<and> (Type msg = ServiceRegistrationMessageType \<and> (ServiceName msg = [] \<or> URL msg = []) \<longrightarrow>
      handleRegisterMsg I told New srv ctx msg w = (Returns (Some errInvalidMsg), srv, w))
   \<and> (Type msg = ServiceRegistrationMessageType \<and> ServiceName msg \<noteq> [] \<and> URL msg \<noteq> [] \<longrightarrow>
      handleRegisterMsg I told New srv ctx msg w =
        (case upsert I told (ServiceName msg) (sOpts srv @ [WithURL (URL msg)]) New
            (Server_senders srv) w of
           (res, sm', w') \<Rightarrow> (res, srv\<lparr>Server_senders := sm'\<rparr>, w')))"
  by (auto simp: handleRegisterMsg_def Upsert_def Let_def split: prod.splits)

theorem handleRegisterMsg_cases_witness:
  "Type alive \<noteq> ServiceRegistrationMessageType
   \<and> handleRegisterMsg mock (\<lambda>w. []) (mock_factory mockSender_zero)
        \<lparr>sOpts = [], Server_senders = empty_map\<rparr> Background alive no_senders =
      (Returns (Some ErrNotHandled), \<lparr>sOpts = [], Server_senders = empty_map\<rparr>, no_senders)
   \<and> handleRegisterMsg mock (\<lambda>w. []) (mock_factory mockSender_zero)
        \<lparr>sOpts = [], Server_senders = empty_map\<rparr> Background
        (registration ''svcA'' []) no_senders =
      (Returns (Some errInvalidMsg), \<lparr>sOpts = [], Server_senders = empty_map\<rparr>, no_senders)
   \<and> fst (handleRegisterMsg mock (\<lambda>w. []) (mock_factory mockSender_zero)
        \<lparr>sOpts = [], Server_senders = empty_map\<rparr> Background
        (registration ''svcA'' ''tcp://127.0.0.1:6667'') no_senders) = Returns None
   \<and> lookup (Server_senders (fst (snd (handleRegisterMsg mock (\<lambda>w. [])
        (mock_factory mockSender_zero)
        \<lparr>sOpts = [], Server_senders = empty_map\<rparr> Background
        (registration ''svcA'' ''tcp://127.0.0.1:6667'') no_senders)))) ''svcA'' = Some 0
   \<and> fst (handleRegisterMsg real_senders production_told sender_New
        \<lparr>sOpts = [], Server_senders = empty_map\<rparr> Background
        (registration ''svcA'' ''tcp://127.0.0.1:6667'') no_production) = Returns None
   \<and> lookup (Server_senders (fst (snd (handleRegisterMsg real_senders production_told sender_New
        \<lparr>sOpts = [], Server_senders = empty_map\<rparr> Background
        (registration ''svcA'' ''tcp://127.0.0.1:6667'') no_production)))) ''svcA'' = Some 0"
  using handleRegisterMsg_cases
    [where msg = alive and I = mock and New = "mock_factory mockSender_zero"
      and srv = "\<lparr>sOpts = [], Server_senders = empty_map\<rparr>" and ctx = Background
      and w = no_senders and told = "\<lambda>w. []"]
    handleRegisterMsg_cases
    [where msg = "registration ''svcA'' []" and I = mock and New = "mock_factory mockSender_zero"
      and srv = "\<lparr>sOpts = [], Server_senders = empty_map\<rparr>" and ctx = Background
      and w = no_senders and told = "\<lambda>w. []"]
    handleRegisterMsg_cases
    [where msg = "registration ''svcA'' ''tcp://127.0.0.1:6667''" and I = mock
      and New = "mock_factory mockSender_zero"
      and srv = "\<lparr>sOpts = [], Server_senders = empty_map\<rparr>" and ctx = Background
      and w = no_senders and told = "\<lambda>w. []"]
    handleRegisterMsg_cases
    [where msg = "registration ''svcA'' ''tcp://127.0.0.1:6667''" and I = real_senders
      and New = sender_New
      and srv = "\<lparr>sOpts = [], Server_senders = empty_map\<rparr>" and ctx = Background
      and w = no_production and told = production_told]
  by (simp add: alive_def registration_def Message_zero_def ServiceAliveMessageType_def
      ServiceRegistrationMessageType_def upsert_def mock_factory_def mock_def no_senders_def
      mockSender_zero_def empty_map_def lookup_def Let_def replace_def calls_def
      real_senders_def production_def sender_New_def Sender_New_def Sender_zero_def
      Sender_Dial_def dialNewSocket_def with_list_def test_mangos_def no_production_def
      quiet_def production_told_def Sender_ProcessWRP_def test_Encode_def authorization_def
      select_result_def Background_def AuthorizationMessageType_def)



lemma Remove_quiet:
  "lookup sm name = Some s \<Longrightarrow> removals (calls told w (snd (Close I s w))) = [] \<Longrightarrow>
   Remove I told name sm w =
     (Returns None, sm\<lparr>senders := Some ((the (senders sm))(name := None))\<rparr>, snd (Close I s w))"
  by (auto simp: Remove_def lookup_def split: option.splits prod.splits)

lemmas sender_steps =
  calls_def lookup_def Let_def real_senders_def production_def sender_New_def Sender_New_def
  Sender_zero_def Sender_Dial_def dialNewSocket_def Sender_Close_def Sender_ProcessWRP_def
  visitOnClose_def select_result_def Background_def with_list_def test_mangos_def
  test_Encode_def tell_def production_told_def authorization_def Message_zero_def
  errors_Join_def peer_def AuthorizationMessageType_def

lemmas production_steps =
  upsert_def replace_def Remove_def closeListener_def register_def send_fails_def
  senderMap_ProcessWRP_def request_def test_ParseLocator_def To_def
  ServiceAliveMessageType_def SimpleRequestResponseMessageType_def empty_map_def
  no_production_def quiet_def sender_steps

lemma registered_is:
  "registered =
     (\<lparr>senders = Some [''service_1'' \<mapsto> 0]\<rparr>,
      \<lparr>made = (\<lambda>r. Sender_zero)
         (0 := \<lparr>url = ''tcp://127.0.0.1:6667'', onClose = [tell (SelfRemoval ''service_1'')],
                 sock = Some 0, sendDeadline = 0\<rparr>),
       next_ref = 1,
       outside = (\<lparr>sockets = 1, sendRv = None, frames = [(0, [])], closed = [],
                    notified = []\<rparr>, [])\<rparr>)"
  by (simp add: registered_def production_steps)

lemma disconnected_is:
  "disconnected =
     (\<lparr>senders = Some [''service_1'' \<mapsto> 0]\<rparr>,
      \<lparr>made = (\<lambda>r. Sender_zero)
         (0 := \<lparr>url = ''tcp://127.0.0.1:6667'', onClose = [tell (SelfRemoval ''service_1'')],
                 sock = None, sendDeadline = 0\<rparr>),
       next_ref = 1,
       outside = (\<lparr>sockets = 1, sendRv = Some (Err ''send error''), frames = [(0, [])],
                    closed = [0], notified = []\<rparr>,
                  [(SelfRemoval ''service_1'',
                    Some (Joined [Err ''send error'', ErrFailedToSend]))])\<rparr>)"
  by (simp add: disconnected_def registered_is production_steps)

lemma superseded_is:
  "superseded =
     (\<lparr>senders = Some [''service_1'' \<mapsto> 1]\<rparr>,
      \<lparr>made = (\<lambda>r. Sender_zero)
         (0 := \<lparr>url = ''tcp://127.0.0.1:6667'', onClose = [tell (SelfRemoval ''service_1'')],
                 sock = None, sendDeadline = 0\<rparr>,
          1 := \<lparr>url = ''tcp://127.0.0.1:6667'', onClose = [tell (SelfRemoval ''service_1'')],
                 sock = Some 1, sendDeadline = 0\<rparr>),
       next_ref = 2,
       outside = (\<lparr>sockets = 2, sendRv = None, frames = [(0, []), (1, [])],
                    closed = [0], notified = []\<rparr>,
                  [(SelfRemoval ''service_1'',
                    Some (Joined [Err ''send error'', ErrFailedToSend]))])\<rparr>)"
  by (simp add: superseded_def disconnected_is production_steps)

lemma both_failed_is:
  "both_failed =
     (\<lparr>senders = Some [''service_1'' \<mapsto> 1]\<rparr>,
      \<lparr>made = (\<lambda>r. Sender_zero)
         (0 := \<lparr>url = ''tcp://127.0.0.1:6667'', onClose = [tell (SelfRemoval ''service_1'')],
                 sock = None, sendDeadline = 0\<rparr>,
          1 := \<lparr>url = ''tcp://127.0.0.1:6667'', onClose = [tell (SelfRemoval ''service_1'')],
                 sock = None, sendDeadline = 0\<rparr>),
       next_ref = 2,
       outside = (\<lparr>sockets = 2, sendRv = Some (Err ''send error''),
                    frames = [(0, []), (1, [])], closed = [0, 1], notified = []\<rparr>,
                  [(SelfRemoval ''service_1'',
                    Some (Joined [Err ''send error'', ErrFailedToSend])),
                   (SelfRemoval ''service_1'',
                    Some (Joined [Err ''send error'', ErrFailedToSend]))])\<rparr>)"
  by (simp add: both_failed_def superseded_is production_steps)




lemma Close_disconnected:
  "sock (made p s) = None \<Longrightarrow> Close (production T Encode done_first) s p = (None, p)"
  by (simp add: production_def Sender_Close_def)

text \<open>
  C2, as the code has it. The listener that upsert injects calls Remove on the name and
  takes no account of the sender that called it or of its error. When the table has no
  entry for the name nothing changes. When it has one and the Close of the registered
  sender calls no listener that removes from the table, that sender is closed, the entry
  is removed and the other names are as before. A production sender that is disconnected
  is such a sender: its Close does nothing.
\<close>

theorem closeListener_removes_current_entry:
  "(lookup sm name = None \<longrightarrow> closeListener I told name err sm w = (Returns (), sm, w))
   \<and> (lookup sm name = Some s \<and> removals (calls told w (snd (Close I s w))) = [] \<longrightarrow>
        closeListener I told name err sm w =
          (Returns (), sm\<lparr>senders := Some ((the (senders sm))(name := None))\<rparr>,
           snd (Close I s w))
        \<and> lookup (sm\<lparr>senders := Some ((the (senders sm))(name := None))\<rparr>) name = None
        \<and> (\<forall>other. other \<noteq> name \<longrightarrow>
              lookup (sm\<lparr>senders := Some ((the (senders sm))(name := None))\<rparr>) other =
              lookup sm other))
   \<and> (sock (made p s) = None \<longrightarrow>
        Close (production T Encode done_first) s p = (None, p)
        \<and> removals (calls production_told p (snd (Close (production T Encode done_first) s p))) = [])"
proof (intro conjI impI allI)
  assume "lookup sm name = None"
  then show "closeListener I told name err sm w = (Returns (), sm, w)"
    by (simp add: closeListener_def Remove_def)
next
  assume "lookup sm name = Some s \<and> removals (calls told w (snd (Close I s w))) = []"
  then show "closeListener I told name err sm w =
      (Returns (), sm\<lparr>senders := Some ((the (senders sm))(name := None))\<rparr>, snd (Close I s w))"
    by (simp add: closeListener_def Remove_quiet)
next
  show "lookup (sm\<lparr>senders := Some ((the (senders sm))(name := None))\<rparr>) name = None"
    by (simp add: lookup_def)
next
  fix other
  assume "lookup sm name = Some s \<and> removals (calls told w (snd (Close I s w))) = []"
    and "other \<noteq> name"
  then show "lookup (sm\<lparr>senders := Some ((the (senders sm))(name := None))\<rparr>) other =
      lookup sm other"
    by (auto simp: lookup_def split: option.splits)
next
  assume "sock (made p s) = None"
  then show "Close (production T Encode done_first) s p = (None, p)"
    by (rule Close_disconnected)
next
  assume "sock (made p s) = None"
  then show "removals (calls production_told p
      (snd (Close (production T Encode done_first) s p))) = []"
    by (simp add: Close_disconnected calls_same)
qed

theorem closeListener_removes_current_entry_witness:
  "lookup (fst disconnected) ''service_1'' = Some 0
   \<and> sock (made (snd disconnected) 0) = None
   \<and> closeListener real_senders production_told ''service_1''
        (Some (Joined [Err ''send error'', ErrFailedToSend])) (fst disconnected)
        (snd disconnected) =
      (Returns (), \<lparr>senders = Some Map.empty\<rparr>, snd disconnected)
   \<and> lookup empty_map ''service_1'' = None
   \<and> closeListener real_senders production_told ''service_1'' None empty_map no_production =
      (Returns (), empty_map, no_production)"
proof -
  have h1: "lookup empty_map ''service_1'' = None"
    by (simp add: lookup_def empty_map_def)
  have h2: "lookup (fst disconnected) ''service_1'' = Some 0"
    by (simp add: disconnected_is lookup_def)
  have h3: "sock (made (snd disconnected) 0) = None"
    by (simp add: disconnected_is)
  note absent = closeListener_removes_current_entry
    [where sm = empty_map and name = "''service_1''" and I = real_senders
      and told = production_told and err = None and w = no_production,
      THEN conjunct1, THEN mp, OF h1]
  note quiet_close = closeListener_removes_current_entry
    [where p = "snd disconnected" and s = 0 and T = test_mangos and Encode = test_Encode
      and done_first = False,
      THEN conjunct2, THEN conjunct2, THEN mp, OF h3, THEN conjunct2, folded real_senders_def]
  from h2 quiet_close
  have h4: "lookup (fst disconnected) ''service_1'' = Some 0 \<and>
      removals (calls production_told (snd disconnected)
        (snd (Close real_senders 0 (snd disconnected)))) = []"
    by simp
  note removed = closeListener_removes_current_entry
    [where sm = "fst disconnected" and name = "''service_1''" and I = real_senders
      and told = production_told and w = "snd disconnected" and s = 0
      and err = "Some (Joined [Err ''send error'', ErrFailedToSend])",
      THEN conjunct2, THEN conjunct1, THEN mp, OF h4, THEN conjunct1]
  have gone: "(fst disconnected)\<lparr>senders :=
      Some ((the (senders (fst disconnected)))(''service_1'' := None))\<rparr> =
      \<lparr>senders = Some Map.empty\<rparr>"
    by (simp add: disconnected_is)
  have same: "snd (Close real_senders 0 (snd disconnected)) = snd disconnected"
    using h3 by (simp add: real_senders_def Close_disconnected)
  from h1 h2 h3 absent removed [unfolded gone same] show ?thesis
    by (intro conjI)
qed

text \<open>
  C2, as it is stated, fails. Sender 0 was registered and a send to it failed; before its
  listener got the lock the service registered again (sender 1). In \<open>both_failed\<close> a send to
  sender 1 has failed as well: the table holds sender 1, and the listener of sender 0, the
  first that was called, removes that entry. In \<open>superseded\<close> sender 1 is still connected:
  the listener of sender 0 closes sender 1 and does not return, and the entry stays.
\<close>

theorem stale_close_evicts_newer_entry:
  "lookup (fst both_failed) ''service_1'' = Some 1
   \<and> production_told (snd both_failed) ! 0 =
       (SelfRemoval ''service_1'', Some (Joined [Err ''send error'', ErrFailedToSend]))
   \<and> closeListener real_senders production_told ''service_1''
        (Some (Joined [Err ''send error'', ErrFailedToSend])) (fst both_failed)
        (snd both_failed) =
      (Returns (), \<lparr>senders = Some Map.empty\<rparr>, snd both_failed)
   \<and> lookup (fst superseded) ''service_1'' = Some 1
   \<and> sock (made (snd superseded) 1) = Some 1
   \<and> fst (closeListener real_senders production_told ''service_1''
        (Some (Joined [Err ''send error'', ErrFailedToSend])) (fst superseded)
        (snd superseded)) = Deadlocks
   \<and> lookup (fst (snd (closeListener real_senders production_told ''service_1''
        (Some (Joined [Err ''send error'', ErrFailedToSend])) (fst superseded)
        (snd superseded)))) ''service_1'' = Some 1
   \<and> sock (made (snd (snd (closeListener real_senders production_told ''service_1''
        (Some (Joined [Err ''send error'', ErrFailedToSend])) (fst superseded)
        (snd superseded)))) 1) = None"
  by (simp add: both_failed_is superseded_is production_steps)

section \<open>Properties of the sender\<close>

lemma calls_on_closed:
  "sock s = None \<Longrightarrow>
   calls_result T Encode cs s n = (map (closed_answer Encode) cs, s, n)"
proof (induction cs)
  case Nil
  then show ?case by simp
next
  case (Cons c cs)
  then show ?case
    by (cases c)
      (auto simp: Sender_Close_def Sender_ProcessWRP_def closed_answer_def split: sum.splits)
qed

text \<open>
  C4, as the code has it. Close leaves the sender unconnected, and so does a send whose
  frame the transport refuses. An unconnected sender stays as it is through any run of
  Close and ProcessWRP calls, without a call to the transport or to a listener: Close
  returns nil, and every send of a message that encodes returns the connection-closed error
  (the encoder's error otherwise). It is not closed for good: Dial on it asks the
  transport for a new socket, and when that succeeds the sender is connected again.
\<close>

theorem closed_until_redialed:
  "sock (fst (snd (Sender_Close T s n))) = None
   \<and> (sock s = Some sk \<and> Encode msg = Inr buf \<and> sock_Send T sk buf n = (Some err, n') \<longrightarrow>
        sock (fst (snd (Sender_ProcessWRP T Encode done_first s ctx msg n))) = None)
   \<and> (sock s = None \<longrightarrow>
        calls_result T Encode cs s n = (map (closed_answer Encode) cs, s, n))
   \<and> (sock s = None \<and> dialNewSocket T (url s) (sendDeadline s) n = (Inr sk', n'') \<longrightarrow>
        Sender_Dial T s n = (None, s\<lparr>sock := Some sk'\<rparr>, n''))"
proof (intro conjI impI)
  show "sock (fst (snd (Sender_Close T s n))) = None"
    by (simp add: Sender_Close_def split: option.splits prod.splits)
next
  assume "sock s = Some sk \<and> Encode msg = Inr buf \<and> sock_Send T sk buf n = (Some err, n')"
  then show "sock (fst (snd (Sender_ProcessWRP T Encode done_first s ctx msg n))) = None"
    by (simp add: Sender_ProcessWRP_def Let_def split: prod.splits)
next
  assume "sock s = None"
  then show "calls_result T Encode cs s n = (map (closed_answer Encode) cs, s, n)"
    by (rule calls_on_closed)
next
  assume "sock s = None \<and> dialNewSocket T (url s) (sendDeadline s) n = (Inr sk', n'')"
  then show "Sender_Dial T s n = (None, s\<lparr>sock := Some sk'\<rparr>, n'')"
    by (simp add: Sender_Dial_def)
qed

theorem closed_until_redialed_witness:
  "sock dialed = Some 0
   \<and> test_Encode test_message = Inr [116, 101, 115, 116]
   \<and> sock_Send test_mangos 0 [116, 101, 115, 116] (one_socket\<lparr>sendRv := Some (Err ''send error'')\<rparr>) =
       (Some (Err ''send error''), one_socket\<lparr>sendRv := Some (Err ''send error'')\<rparr>)
   \<and> sock (fst (snd (Sender_ProcessWRP test_mangos test_Encode False dialed None test_message
        (one_socket\<lparr>sendRv := Some (Err ''send error'')\<rparr>)))) = None
   \<and> sock (dialed\<lparr>sock := None\<rparr>) = None
   \<and> calls_result test_mangos test_Encode
        [Call_ProcessWRP False None test_message, Call_Close, Call_ProcessWRP True None test_message]
        (dialed\<lparr>sock := None\<rparr>) one_socket =
       ([Some ErrConnClosed, None, Some ErrConnClosed], dialed\<lparr>sock := None\<rparr>, one_socket)
   \<and> dialNewSocket test_mangos (url (dialed\<lparr>sock := None\<rparr>))
        (sendDeadline (dialed\<lparr>sock := None\<rparr>)) one_socket =
       (Inr 1, one_socket\<lparr>sockets := 2\<rparr>)
   \<and> Sender_Dial test_mangos (dialed\<lparr>sock := None\<rparr>) one_socket =
       (None, dialed\<lparr>sock := Some 1\<rparr>, one_socket\<lparr>sockets := 2\<rparr>)"
  using closed_until_redialed
    [where s = dialed and sk = 0 and Encode = test_Encode and msg = test_message
      and buf = "[116, 101, 115, 116]" and T = test_mangos
      and n = "one_socket\<lparr>sendRv := Some (Err ''send error'')\<rparr>"
      and err = "Err ''send error''" and n' = "one_socket\<lparr>sendRv := Some (Err ''send error'')\<rparr>"
      and done_first = False and ctx = None]
    closed_until_redialed
    [where s = "dialed\<lparr>sock := None\<rparr>" and Encode = test_Encode and T = test_mangos
      and n = one_socket and sk' = 1 and n'' = "one_socket\<lparr>sockets := 2\<rparr>"
      and cs = "[Call_ProcessWRP False None test_message, Call_Close,
        Call_ProcessWRP True None test_message]"]
  by (simp add: dialed_def test_Encode_def test_message_def Message_zero_def test_mangos_def
      one_socket_def dialNewSocket_def closed_answer_def)

text \<open>
  C4, as it is stated, fails. A connected sender is closed (its listener is told, with a
  nil reason); Dial on the same sender then connects it to a new socket, and the next send
  succeeds: the frame goes out on socket 1.
\<close>

theorem closed_sender_is_redialed:
  "sock (fst (snd (Sender_Close test_mangos dialed one_socket))) = None
   \<and> notified (snd (snd (Sender_Close test_mangos dialed one_socket))) = [None]
   \<and> sock (fst close_then_dial) = Some 1
   \<and> Sender_ProcessWRP test_mangos test_Encode False (fst close_then_dial) None test_message
        (snd close_then_dial) =
       (None, fst close_then_dial,
        (snd close_then_dial)\<lparr>frames := [(1, [116, 101, 115, 116])]\<rparr>)"
  by (simp add: close_then_dial_def Sender_Close_def Sender_Dial_def Sender_ProcessWRP_def
      dialNewSocket_def dialed_def test_Encode_def test_message_def Message_zero_def
      test_mangos_def one_socket_def visitOnClose_def closeRecorder_def select_result_def
      Background_def)

section \<open>Properties of the receiver\<close>

lemma receive_until_cancelled:
  "list_all keeps_receiving pre \<Longrightarrow>
   receive T Decode r sk (pre @ CtxDone # rest) n =
     Some (Some (Joined [Canceled, Canceled]),
       snd (sock_Close T sk (foldl (\<lambda>n msg. visitOnMsg r msg n) n (dispatched Decode pre))))"
proof (induction pre arbitrary: n)
  case Nil
  show ?case
    by (simp add: selected_def ctx_Err_def errors_Is_def errors_Join_def
        split: prod.splits)
next
  case (Cons ev pre)
  then show ?case
    by (cases ev)
      (auto simp: selected_def keeps_receiving_def split: sum.splits option.splits)
qed

lemma errors_Join_cancelled: "errors_Join [err, Some Canceled] \<noteq> None"
  by (cases err) (simp_all add: errors_Join_def)

lemma receive_after_cancellation:
  "list_all (\<lambda>ev. ctx_Err ev \<noteq> None) evs \<Longrightarrow>
   receive T Decode r sk evs n = Some (t, na) \<Longrightarrow> t \<noteq> None"
proof (induction evs arbitrary: n)
  case Nil
  then show ?case by simp
next
  case (Cons ev evs)
  from Cons.prems(1) have c: "ctx_Err ev = Some Canceled"
    by (cases ev) (auto simp: ctx_Err_def split: if_splits)
  from Cons.prems(1) have rest: "list_all (\<lambda>ev. ctx_Err ev \<noteq> None) evs"
    by simp
  show ?case
  proof (cases "keeps_receiving ev")
    case True
    then have "\<exists>m. receive T Decode r sk (ev # evs) n = receive T Decode r sk evs m"
    proof (cases ev)
      case CtxDone
      with True show ?thesis by (simp add: keeps_receiving_def)
    next
      case (FromErrChan err c)
      with True show ?thesis by (auto simp: keeps_receiving_def selected_def)
    next
      case (FromRecvChan buf c)
      with True obtain b where "buf = Some b" by (auto simp: keeps_receiving_def)
      with FromRecvChan show ?thesis
        by (cases "Decode b") (auto simp: selected_def)
    qed
    then obtain m where "receive T Decode r sk (ev # evs) n = receive T Decode r sk evs m" ..
    with Cons.prems(2) Cons.IH [OF rest] show ?thesis by simp
  next
    case False
    then have "receive T Decode r sk (ev # evs) n =
        Some (errors_Join [snd (selected ev), Some Canceled], snd (sock_Close T sk n))"
      using c by (cases ev) (auto simp: keeps_receiving_def selected_def errors_Is_def split: prod.splits)
    with Cons.prems(2) show ?thesis
      using errors_Join_cancelled by auto
  qed
qed

lemma after_cancel_simps:
  "after_cancel CtxDone = CtxDone"
  "after_cancel (FromErrChan err c) = FromErrChan err True"
  "after_cancel (FromRecvChan buf c) = FromRecvChan buf True"
  by (simp_all add: after_cancel_def)

lemma keeps_receiving_after_cancel: "keeps_receiving (after_cancel ev) = keeps_receiving ev"
  by (cases ev) (simp_all add: keeps_receiving_def after_cancel_def)

lemma dispatched_after_cancel: "dispatched Decode (map after_cancel evs) = dispatched Decode evs"
proof (induction evs)
  case Nil
  show ?case by simp
next
  case (Cons ev evs)
  show ?case
  proof (cases ev)
    case CtxDone
    with Cons show ?thesis by (simp add: after_cancel_simps)
  next
    case (FromErrChan err c)
    with Cons show ?thesis by (simp add: after_cancel_simps)
  next
    case (FromRecvChan buf c)
    with Cons show ?thesis
      by (cases buf) (simp_all add: after_cancel_simps split: sum.splits)
  qed
qed

lemma ctx_Err_after_cancel: "ctx_Err (after_cancel ev) \<noteq> None"
  by (cases ev) (simp_all add: ctx_Err_def after_cancel_def)

lemma receive_returns_at_done:
  "\<exists>t na. receive T Decode r sk (evs @ [CtxDone]) n = Some (t, na)"
proof (induction evs arbitrary: n)
  case Nil
  show ?case
    by (simp add: selected_def errors_Is_def split: prod.splits)
next
  case (Cons ev evs)
  show ?case
  proof (cases "selected ev")
    case (Pair buf err)
    show ?thesis
    proof (cases buf)
      case (Some b)
      with Pair Cons show ?thesis
        by (cases "Decode b") simp_all
    next
      case None
      with Pair Cons show ?thesis
        by (simp split: prod.splits)
    qed
  qed
qed

lemma receive_closes_socket:
  "receive T Decode r sk evs n = Some (t, na) \<Longrightarrow> \<exists>m. na = snd (sock_Close T sk m)"
proof (induction evs arbitrary: n)
  case Nil
  then show ?case by simp
next
  case (Cons ev evs)
  obtain buf err where sel: "selected ev = (buf, err)"
    by (cases "selected ev")
  show ?case
  proof (cases buf)
    case (Some b)
    with Cons sel show ?thesis
      by (cases "Decode b") simp_all
  next
    case None
    show ?thesis
    proof (cases "errors_Is err (Some ErrRecvTimeout)")
      case True
      with Cons sel None show ?thesis by simp
    next
      case False
      with Cons.prems sel None have "na = snd (sock_Close T sk n)"
        by (auto split: prod.splits)
      then show ?thesis ..
    qed
  qed
qed

lemma cancelled_loop_returns:
  "\<exists>t na. receive T Decode r sk (map after_cancel late @ [CtxDone]) n = Some (t, na) \<and> t \<noteq> None"
proof -
  obtain t na where
    ret: "receive T Decode r sk (map after_cancel late @ [CtxDone]) n = Some (t, na)"
    using receive_returns_at_done [of T Decode r sk "map after_cancel late" n] by auto
  have "ctx_Err CtxDone \<noteq> None"
    by (simp add: ctx_Err_def)
  then have "list_all (\<lambda>ev. ctx_Err ev \<noteq> None) (map after_cancel late @ [CtxDone])"
    using ctx_Err_after_cancel by (simp add: list_all_iff)
  from this ret have "t \<noteq> None"
    by (rule receive_after_cancellation)
  with ret show ?thesis by blast
qed

lemma after_receive_fires:
  "after_receive T Decode r t n = Some (r\<lparr>cancel := False\<rparr>, visitOnFailure r t n)"
  by (simp add: after_receive_def Receiver_Close_def visitOnFailure_def)

text \<open>
  C3, as the code has it. On a receiver that does not run, Close returns nil and changes
  nothing. On a receiver that runs, Close cancels the context of the loop and waits for the
  loop: it returns, and it returns after the loop has returned, in the world the loop left
  (its socket closed), with the receiver stopped; the value it returns is nil, while the
  error \<open>t'\<close> that the loop returned is not nil. When the goroutine has left the loop already,
  Close returns nil at once. After the loop has returned \<open>t\<close>, the goroutine calls Close and
  then the close listeners with \<open>t\<close>. When the loop, after any number of timeouts and
  frames, finds its context done, \<open>t\<close> is the cancellation error joined with itself; and
  whatever makes the loop return once its context is cancelled, the error it returns is
  not nil.
\<close>

theorem Close_returns_nil:
  "(\<not> cancel r \<longrightarrow> Receiver_Close T Decode late r g n = Some (None, r, g, n))
   \<and> (cancel r \<longrightarrow>
        Receiver_Close T Decode late r (Returned t) n =
          Some (None, r\<lparr>cancel := False\<rparr>, Returned t, n))
   \<and> (cancel r \<longrightarrow>
        (\<exists>t' n'. receive T Decode r sk (map after_cancel late @ [CtxDone]) n = Some (t', n')
           \<and> t' \<noteq> None
           \<and> (\<exists>m. n' = snd (sock_Close T sk m))
           \<and> Receiver_Close T Decode late r (Receiving sk) n =
               Some (None, r\<lparr>cancel := False\<rparr>, Returned t', n')
           \<and> after_receive T Decode (r\<lparr>cancel := False\<rparr>) t' n' =
               Some (r\<lparr>cancel := False\<rparr>, visitOnFailure r t' n')))
   \<and> (cancel r \<and> list_all keeps_receiving late \<longrightarrow>
        Receiver_Close T Decode late r (Receiving sk) n =
          Some (None, r\<lparr>cancel := False\<rparr>, Returned (Some (Joined [Canceled, Canceled])),
            snd (sock_Close T sk
              (foldl (\<lambda>n msg. visitOnMsg r msg n) n (dispatched Decode late)))))
   \<and> (receive T Decode r sk evs n = Some (t, na) \<longrightarrow>
        wrapper T Decode r sk evs n = Some (r\<lparr>cancel := False\<rparr>, visitOnFailure r t na))
   \<and> (list_all keeps_receiving pre \<longrightarrow>
        map_option fst (receive T Decode r sk (pre @ CtxDone # rest) n) =
          Some (Some (Joined [Canceled, Canceled])))
   \<and> (list_all (\<lambda>ev. ctx_Err ev \<noteq> None) evs \<and>
        receive T Decode r sk evs n = Some (t, na) \<longrightarrow> t \<noteq> None)"
proof (intro conjI impI)
  assume "\<not> cancel r"
  then show "Receiver_Close T Decode late r g n = Some (None, r, g, n)"
    by (simp add: Receiver_Close_def)
next
  assume "cancel r"
  then show "Receiver_Close T Decode late r (Returned t) n =
      Some (None, r\<lparr>cancel := False\<rparr>, Returned t, n)"
    by (simp add: Receiver_Close_def)
next
  assume running: "cancel r"
  obtain t' n' where
    ret: "receive T Decode r sk (map after_cancel late @ [CtxDone]) n = Some (t', n')"
    and err: "t' \<noteq> None"
    using cancelled_loop_returns [of T Decode r sk late n] by auto
  from running ret have "Receiver_Close T Decode late r (Receiving sk) n =
      Some (None, r\<lparr>cancel := False\<rparr>, Returned t', n')"
    by (simp add: Receiver_Close_def)
  moreover have "after_receive T Decode (r\<lparr>cancel := False\<rparr>) t' n' =
      Some (r\<lparr>cancel := False\<rparr>, visitOnFailure r t' n')"
    by (simp add: after_receive_fires visitOnFailure_def)
  moreover from ret obtain m where "n' = snd (sock_Close T sk m)"
    using receive_closes_socket [of T Decode r sk "map after_cancel late @ [CtxDone]" n t' n']
    by auto
  ultimately show "\<exists>t' n'. receive T Decode r sk (map after_cancel late @ [CtxDone]) n = Some (t', n')
      \<and> t' \<noteq> None
      \<and> (\<exists>m. n' = snd (sock_Close T sk m))
      \<and> Receiver_Close T Decode late r (Receiving sk) n =
          Some (None, r\<lparr>cancel := False\<rparr>, Returned t', n')
      \<and> after_receive T Decode (r\<lparr>cancel := False\<rparr>) t' n' =
          Some (r\<lparr>cancel := False\<rparr>, visitOnFailure r t' n')"
    using ret err by (intro exI conjI)
next
  assume h: "cancel r \<and> list_all keeps_receiving late"
  then have "list_all keeps_receiving (map after_cancel late)"
    by (simp add: list_all_iff keeps_receiving_after_cancel)
  then have "receive T Decode r sk (map after_cancel late @ CtxDone # []) n =
      Some (Some (Joined [Canceled, Canceled]),
        snd (sock_Close T sk (foldl (\<lambda>n msg. visitOnMsg r msg n) n
          (dispatched Decode (map after_cancel late)))))"
    by (rule receive_until_cancelled)
  with h show "Receiver_Close T Decode late r (Receiving sk) n =
      Some (None, r\<lparr>cancel := False\<rparr>, Returned (Some (Joined [Canceled, Canceled])),
        snd (sock_Close T sk (foldl (\<lambda>n msg. visitOnMsg r msg n) n (dispatched Decode late))))"
    by (simp add: Receiver_Close_def dispatched_after_cancel)
next
  assume "receive T Decode r sk evs n = Some (t, na)"
  then show "wrapper T Decode r sk evs n = Some (r\<lparr>cancel := False\<rparr>, visitOnFailure r t na)"
    by (simp add: wrapper_def after_receive_fires)
next
  assume "list_all keeps_receiving pre"
  then show "map_option fst (receive T Decode r sk (pre @ CtxDone # rest) n) =
      Some (Some (Joined [Canceled, Canceled]))"
    by (simp add: receive_until_cancelled)
next
  assume h: "list_all (\<lambda>ev. ctx_Err ev \<noteq> None) evs \<and>
      receive T Decode r sk evs n = Some (t, na)"
  from h have "list_all (\<lambda>ev. ctx_Err ev \<noteq> None) evs" ..
  moreover from h have "receive T Decode r sk evs n = Some (t, na)" ..
  ultimately show "t \<noteq> None"
    by (rule receive_after_cancellation)
qed


theorem Close_returns_nil_witness:
  "\<not> cancel (listening\<lparr>cancel := False\<rparr>)
   \<and> Receiver_Close test_mangos test_Decode [] (listening\<lparr>cancel := False\<rparr>)
        (Returned (Some (Joined [Canceled, Canceled]))) one_socket =
       Some (None, listening\<lparr>cancel := False\<rparr>, Returned (Some (Joined [Canceled, Canceled])),
         one_socket)
   \<and> cancel listening
   \<and> list_all keeps_receiving [FromErrChan ErrRecvTimeout False, FromRecvChan (Some [1, 2]) False]
   \<and> Receiver_Close test_mangos test_Decode
        [FromErrChan ErrRecvTimeout False, FromRecvChan (Some [1, 2]) False] listening
        (Receiving 0) one_socket =
       Some (None, listening\<lparr>cancel := False\<rparr>, Returned (Some (Joined [Canceled, Canceled])),
         one_socket\<lparr>closed := [0]\<rparr>)
   \<and> Receiver_Close test_mangos test_Decode [] listening
        (Returned (Some (Joined [Err ''connection reset'']))) (one_socket\<lparr>closed := [0]\<rparr>) =
       Some (None, listening\<lparr>cancel := False\<rparr>,
         Returned (Some (Joined [Err ''connection reset''])), one_socket\<lparr>closed := [0]\<rparr>)
   \<and> receive test_mangos test_Decode listening 0 [FromErrChan (Err ''connection reset'') False]
        one_socket = Some (Some (Joined [Err ''connection reset'']), one_socket\<lparr>closed := [0]\<rparr>)
   \<and> wrapper test_mangos test_Decode listening 0 [FromErrChan (Err ''connection reset'') False]
        one_socket =
       Some (listening\<lparr>cancel := False\<rparr>,
         one_socket\<lparr>closed := [0], notified := [Some (Joined [Err ''connection reset''])]\<rparr>)
   \<and> map_option fst (receive test_mangos test_Decode listening 0
        ([FromErrChan ErrRecvTimeout False, FromRecvChan (Some [1, 2]) False] @ CtxDone # [])
        one_socket) = Some (Some (Joined [Canceled, Canceled]))
   \<and> list_all (\<lambda>ev. ctx_Err ev \<noteq> None) [FromErrChan (Err ''closed'') True]
   \<and> receive test_mangos test_Decode listening 0 [FromErrChan (Err ''closed'') True] one_socket =
       Some (Some (Joined [Err ''closed'', Canceled]), one_socket\<lparr>closed := [0]\<rparr>)"
proof -
  let ?late = "[FromErrChan ErrRecvTimeout False, FromRecvChan (Some [1, 2]) False]"
  let ?reset = "Some (Joined [Err ''connection reset''])"
  let ?stopped = "listening\<lparr>cancel := False\<rparr>"
  have h1: "\<not> cancel ?stopped"
    by simp
  have h2: "cancel listening"
    by (simp add: listening_def)
  have h3: "list_all keeps_receiving ?late"
    by (simp add: keeps_receiving_def errors_Is_def)
  have h4: "receive test_mangos test_Decode listening 0
      [FromErrChan (Err ''connection reset'') False] one_socket =
      Some (?reset, one_socket\<lparr>closed := [0]\<rparr>)"
    by (simp add: selected_def ctx_Err_def errors_Is_def errors_Join_def test_mangos_def
        one_socket_def)
  have h5: "list_all (\<lambda>ev. ctx_Err ev \<noteq> None) [FromErrChan (Err ''closed'') True]"
    by (simp add: ctx_Err_def)
  have h6: "receive test_mangos test_Decode listening 0 [FromErrChan (Err ''closed'') True]
      one_socket = Some (Some (Joined [Err ''closed'', Canceled]), one_socket\<lparr>closed := [0]\<rparr>)"
    by (simp add: selected_def ctx_Err_def errors_Is_def errors_Join_def test_mangos_def
        one_socket_def)
  note stopped = Close_returns_nil
    [where r = ?stopped and T = test_mangos and Decode = test_Decode and late = "[]"
      and g = "Returned (Some (Joined [Canceled, Canceled]))" and n = one_socket,
      THEN conjunct1, THEN mp, OF h1]
  note returned = Close_returns_nil
    [where r = listening and T = test_mangos and Decode = test_Decode and late = "[]"
      and t = ?reset and n = "one_socket\<lparr>closed := [0]\<rparr>",
      THEN conjunct2, THEN conjunct1, THEN mp, OF h2]
  note waited = Close_returns_nil
    [where r = listening and T = test_mangos and Decode = test_Decode and late = ?late
      and sk = 0 and n = one_socket,
      THEN conjunct2, THEN conjunct2, THEN conjunct2, THEN conjunct1, THEN mp,
      OF conjI, OF h2 h3]
  note fired = Close_returns_nil
    [where r = listening and T = test_mangos and Decode = test_Decode and sk = 0
      and evs = "[FromErrChan (Err ''connection reset'') False]" and n = one_socket
      and t = ?reset and na = "one_socket\<lparr>closed := [0]\<rparr>",
      THEN conjunct2, THEN conjunct2, THEN conjunct2, THEN conjunct2, THEN conjunct1,
      THEN mp, OF h4]
  note joined = Close_returns_nil
    [where r = listening and T = test_mangos and Decode = test_Decode and sk = 0
      and pre = ?late and rest = "[]" and n = one_socket,
      THEN conjunct2, THEN conjunct2, THEN conjunct2, THEN conjunct2, THEN conjunct2,
      THEN conjunct1, THEN mp, OF h3]
  from waited have waited': "Receiver_Close test_mangos test_Decode ?late listening
      (Receiving 0) one_socket =
      Some (None, ?stopped, Returned (Some (Joined [Canceled, Canceled])),
        one_socket\<lparr>closed := [0]\<rparr>)"
    by (simp add: listening_def visitOnMsg_def test_Decode_def test_mangos_def one_socket_def)
  from fired have fired': "wrapper test_mangos test_Decode listening 0
      [FromErrChan (Err ''connection reset'') False] one_socket =
      Some (?stopped,
        one_socket\<lparr>closed := [0], notified := [Some (Joined [Err ''connection reset''])]\<rparr>)"
    by (simp add: listening_def visitOnFailure_def closeRecorder_def one_socket_def)
  from h1 stopped h2 h3 waited' returned h4 fired' joined h5 h6 show ?thesis
    by (intro conjI)
qed

text \<open>
  C3, as it is stated, fails. On a running receiver Close returns nil, while the loop,
  stopped by the cancellation after one timeout, has returned the joined cancellation
  error, and this error, not nil, is what the close listener receives.
\<close>

theorem Close_drops_terminal_error:
  "cancel listening
   \<and> Receiver_Close test_mangos test_Decode [FromErrChan ErrRecvTimeout False] listening
        (Receiving 0) one_socket =
       Some (None, listening\<lparr>cancel := False\<rparr>, Returned (Some (Joined [Canceled, Canceled])),
         one_socket\<lparr>closed := [0]\<rparr>)
   \<and> after_receive test_mangos test_Decode (listening\<lparr>cancel := False\<rparr>)
        (Some (Joined [Canceled, Canceled])) (one_socket\<lparr>closed := [0]\<rparr>) =
       Some (listening\<lparr>cancel := False\<rparr>,
         one_socket\<lparr>closed := [0], notified := [Some (Joined [Canceled, Canceled])]\<rparr>)"
  by (simp add: listening_def Receiver_Close_def after_receive_def after_cancel_def
      selected_def ctx_Err_def errors_Is_def errors_Join_def test_mangos_def one_socket_def
      visitOnFailure_def closeRecorder_def)

end
